theory Spec2Isabelle
  imports Main
begin

section \<open>FileSearcher-Brit: a shallow embedding of filesearch.go\<close>

text \<open>
  The program is one Go file. Its own functions (\<open>isMatch\<close>, the extension map built
  in \<open>main\<close>, \<open>generateFilename\<close>, \<open>formatSize\<close>, \<open>scanFlat\<close>,
  \<open>scanRecursive\<close>, \<open>handleOutput\<close>, \<open>main\<close>) are translated below. The
  functions of the Go standard library they call (\<open>strings\<close>, \<open>strconv\<close>,
  \<open>path/filepath\<close>, \<open>fmt\<close>) are modelled first, for a Unix target with 64-bit
  \<open>int\<close>. A Go string is a byte sequence; here it is a \<open>string\<close> (a list of
  \<open>char\<close>, one per byte), and a rune is a \<open>nat\<close>. The functions that work on
  runes decode the bytes as UTF-8, as the library does. The lower-case table of package
  \<open>unicode\<close> for the runes above 127 is not part of the program: every function that
  lower-cases takes it as its first argument \<open>tbl\<close>, and the theorems hold for every
  table unless they say what they need of it.
\<close>

subsection \<open>Package strings\<close>

subsubsection \<open>Package unicode/utf8\<close>

definition RuneError :: nat where
  "RuneError = 0xFFFD"

definition validRune :: "nat \<Rightarrow> bool" where
  "validRune r = (r \<le> 0x10FFFF \<and> \<not> (0xD800 \<le> r \<and> r \<le> 0xDFFF))"

text \<open>
  \<open>utf8.DecodeRuneInString\<close>: the first rune of the string and the number of bytes it
  takes; \<open>RuneError\<close> and one byte where the bytes are no UTF-8 encoding (a wrong first
  byte, a continuation byte out of its range, a string that ends too early).
\<close>

fun DecodeRune :: "string \<Rightarrow> nat \<times> nat" where
  "DecodeRune [] = (RuneError, 0)"
| "DecodeRune (c0 # cs) =
     (let b0 = (of_char c0 :: nat)
      in if b0 < 0x80 then (b0, 1)
         else if b0 < 0xC2 \<or> 0xF4 < b0 then (RuneError, 1)
         else
           let sz = (if b0 < 0xE0 then 2 else if b0 < 0xF0 then 3 else 4 :: nat);
               lo = (if b0 = 0xE0 then 0xA0 else if b0 = 0xF0 then 0x90 else 0x80 :: nat);
               hi = (if b0 = 0xED then 0x9F else if b0 = 0xF4 then 0x8F else 0xBF :: nat)
           in if length (c0 # cs) < sz then (RuneError, 1)
              else
                let b1 = (of_char (cs ! 0) :: nat)
                in if b1 < lo \<or> hi < b1 then (RuneError, 1)
                   else if sz = 2 then ((b0 mod 32) * 64 + b1 mod 64, 2)
                   else
                     let b2 = (of_char (cs ! 1) :: nat)
                     in if b2 < 0x80 \<or> 0xBF < b2 then (RuneError, 1)
                        else if sz = 3
                        then ((b0 mod 16) * 4096 + (b1 mod 64) * 64 + b2 mod 64, 3)
                        else
                          let b3 = (of_char (cs ! 2) :: nat)
                          in if b3 < 0x80 \<or> 0xBF < b3 then (RuneError, 1)
                             else ((b0 mod 8) * 262144 + (b1 mod 64) * 4096
                                     + (b2 mod 64) * 64 + b3 mod 64, 4))"

text \<open>
  \<open>utf8.AppendRune\<close>: the encoding of a rune, on one to four bytes; a surrogate and a
  value beyond \<open>0x10FFFF\<close> are written as \<open>RuneError\<close>.
\<close>

definition EncodeRune :: "nat \<Rightarrow> string" where
  "EncodeRune r =
     (if r \<le> 0x7F then [char_of r]
      else if r \<le> 0x7FF then [char_of (0xC0 + r div 64), char_of (0x80 + r mod 64)]
      else if \<not> validRune r then [CHR 0xEF, CHR 0xBF, CHR 0xBD]
      else if r \<le> 0xFFFF
      then [char_of (0xE0 + r div 4096), char_of (0x80 + r div 64 mod 64),
            char_of (0x80 + r mod 64)]
      else [char_of (0xF0 + r div 262144), char_of (0x80 + r div 4096 mod 64),
            char_of (0x80 + r div 64 mod 64), char_of (0x80 + r mod 64)])"

text \<open>
  The runes of a string, as \<open>for _, c := range s\<close> yields them. The size of a rune
  read from a string that is not empty is never 0; \<open>max 1\<close> makes that plain to the
  termination proof, here and in the two trimming loops below.
\<close>

function runes :: "string \<Rightarrow> nat list" where
  "runes s =
     (if s = [] then []
      else fst (DecodeRune s) # runes (drop (max 1 (snd (DecodeRune s))) s))"
  by pat_completeness auto
termination
  by (relation "measure length") auto

declare runes.simps [simp del]

text \<open>
  \<open>utf8.DecodeLastRuneInString\<close>: the last rune of the string and its size. The search
  for the byte that starts it goes back over at most three bytes; what is decoded from
  there must end where the string ends.
\<close>

definition RuneStart :: "char \<Rightarrow> bool" where
  "RuneStart b = ((of_char b :: nat) < 0x80 \<or> 0xC0 \<le> (of_char b :: nat))"

definition DecodeLastRune :: "string \<Rightarrow> nat \<times> nat" where
  "DecodeLastRune s =
     (if s = [] then (RuneError, 0)
      else if (of_char (last s) :: nat) < 0x80 then (of_char (last s), 1)
      else
        let n = length s;
            start = (if 2 \<le> n \<and> RuneStart (s ! (n - 2)) then n - 2
                     else if 3 \<le> n \<and> RuneStart (s ! (n - 3)) then n - 3
                     else if 4 \<le> n \<and> RuneStart (s ! (n - 4)) then n - 4
                     else n - 5);
            (r, size) = DecodeRune (drop start s)
        in if start + size \<noteq> n then (RuneError, 1) else (r, size))"

subsubsection \<open>Package unicode\<close>

text \<open>\<open>unicode.IsSpace\<close>: the white space of Latin-1 and the other runes of the property.\<close>

definition IsSpace :: "nat \<Rightarrow> bool" where
  "IsSpace r =
     (r = 0x09 \<or> r = 0x0A \<or> r = 0x0B \<or> r = 0x0C \<or> r = 0x0D \<or> r = 0x20
      \<or> r = 0x85 \<or> r = 0xA0 \<or> r = 0x1680 \<or> (0x2000 \<le> r \<and> r \<le> 0x200A)
      \<or> r = 0x2028 \<or> r = 0x2029 \<or> r = 0x202F \<or> r = 0x205F \<or> r = 0x3000)"

text \<open>
  \<open>unicode.ToLower\<close>: the ASCII letters are handled on the spot, every other rune is
  looked up in the case table \<open>tbl\<close>.
\<close>

type_synonym lower_table = "nat \<Rightarrow> nat"

definition unicode_ToLower :: "lower_table \<Rightarrow> nat \<Rightarrow> nat" where
  "unicode_ToLower tbl r =
     (if r \<le> 0x7F then (if 0x41 \<le> r \<and> r \<le> 0x5A then r + 32 else r) else tbl r)"

subsubsection \<open>ToLower, TrimSpace, HasPrefix, Split, ReplaceAll\<close>

text \<open>
  \<open>strings.Map\<close>: every rune of the string is mapped and written back; a byte that is
  no UTF-8 is read as \<open>RuneError\<close>, so its image is written in its place.
\<close>

definition strings_Map :: "(nat \<Rightarrow> nat) \<Rightarrow> string \<Rightarrow> string" where
  "strings_Map f s = concat (map (\<lambda>r. EncodeRune (f r)) (runes s))"

definition isUpper :: "char \<Rightarrow> bool" where
  "isUpper c = (65 \<le> (of_char c :: nat) \<and> (of_char c :: nat) \<le> 90)"

definition lowerByte :: "char \<Rightarrow> char" where
  "lowerByte c = (if isUpper c then char_of ((of_char c :: nat) + 32) else c)"

definition isASCII :: "string \<Rightarrow> bool" where
  "isASCII s = (\<forall>c \<in> set s. (of_char c :: nat) < 0x80)"

text \<open>
  \<open>strings.ToLower\<close>: byte by byte when the string is ASCII, and
  \<open>Map(unicode.ToLower, s)\<close> otherwise.
\<close>

definition ToLower :: "lower_table \<Rightarrow> string \<Rightarrow> string" where
  "ToLower tbl s = (if isASCII s then map lowerByte s else strings_Map (unicode_ToLower tbl) s)"

text \<open>
  \<open>strings.TrimSpace\<close>: the white space runes are taken off the front, read with
  \<open>DecodeRune\<close>, and then off the end, read with \<open>DecodeLastRune\<close>.
\<close>

function trimLeft :: "string \<Rightarrow> string" where
  "trimLeft s =
     (if s = [] then []
      else if IsSpace (fst (DecodeRune s)) then trimLeft (drop (max 1 (snd (DecodeRune s))) s)
      else s)"
  by pat_completeness auto
termination
  by (relation "measure length") auto

declare trimLeft.simps [simp del]

function trimRight :: "string \<Rightarrow> string" where
  "trimRight s =
     (if s = [] then []
      else if IsSpace (fst (DecodeLastRune s))
      then trimRight (take (length s - max 1 (snd (DecodeLastRune s))) s)
      else s)"
  by pat_completeness auto
termination
  by (relation "measure length") auto

declare trimRight.simps [simp del]

definition TrimSpace :: "string \<Rightarrow> string" where
  "TrimSpace s = trimRight (trimLeft s)"

definition HasPrefix :: "string \<Rightarrow> string \<Rightarrow> bool" where
  "HasPrefix s p = (length p \<le> length s \<and> take (length p) s = p)"

text \<open>
  \<open>strings.Split(s, sep)\<close>: the pieces of \<open>s\<close> between the occurrences of
  \<open>sep\<close>, found from left to right without overlap. \<open>splitFrom sep cur rest\<close> has
  read \<open>cur\<close> of the current piece. An empty \<open>sep\<close> explodes \<open>s\<close> into its
  bytes (its UTF-8 sequences in Go).
\<close>

function splitFrom :: "string \<Rightarrow> string \<Rightarrow> string \<Rightarrow> string list" where
  "splitFrom sep cur [] = [cur]"
| "splitFrom sep cur (c # cs) =
     (if sep \<noteq> [] \<and> HasPrefix (c # cs) sep
      then cur # splitFrom sep [] (drop (length sep) (c # cs))
      else splitFrom sep (cur @ [c]) cs)"
  by pat_completeness auto
termination
  by (relation "measure (\<lambda>(sep, cur, rest). length rest)") auto

definition Split :: "string \<Rightarrow> string \<Rightarrow> string list" where
  "Split s sep = (if sep = [] then map (\<lambda>c. [c]) s else splitFrom sep [] s)"

text \<open>
  \<open>strings.ReplaceAll(s, old, new)\<close>, every occurrence of \<open>old\<close> from left to
  right; an empty \<open>old\<close> matches before every byte and at the end.
\<close>

function replaceFrom :: "string \<Rightarrow> string \<Rightarrow> string \<Rightarrow> string" where
  "replaceFrom old new [] = []"
| "replaceFrom old new (c # cs) =
     (if old \<noteq> [] \<and> HasPrefix (c # cs) old
      then new @ replaceFrom old new (drop (length old) (c # cs))
      else c # replaceFrom old new cs)"
  by pat_completeness auto
termination
  by (relation "measure (\<lambda>(old, new, rest). length rest)") auto

definition ReplaceAll :: "string \<Rightarrow> string \<Rightarrow> string \<Rightarrow> string" where
  "ReplaceAll s old new =
     (if old = [] then concat (map (\<lambda>c. new @ [c]) s) @ new else replaceFrom old new s)"

subsection \<open>Package strconv: Atoi\<close>

datatype num_error = ErrSyntax | ErrRange

definition isDigit :: "char \<Rightarrow> bool" where
  "isDigit c = (48 \<le> (of_char c :: nat) \<and> (of_char c :: nat) \<le> 57)"

definition digitVal :: "char \<Rightarrow> nat" where
  "digitVal c = (of_char c :: nat) - 48"

definition maxUint64 :: nat where
  "maxUint64 = 2 ^ 64 - 1"

text \<open>
  The digit loop of \<open>ParseUint(s, 10, 64)\<close>: a byte that is no digit is a syntax error,
  and a value beyond \<open>maxUint64\<close> is a range error, whichever the loop meets first.
\<close>

fun parseUintLoop :: "nat \<Rightarrow> string \<Rightarrow> nat \<times> num_error option" where
  "parseUintLoop n [] = (n, None)"
| "parseUintLoop n (c # cs) =
     (if \<not> isDigit c then (0, Some ErrSyntax)
      else if n \<ge> maxUint64 div 10 + 1 then (maxUint64, Some ErrRange)
      else if n * 10 + digitVal c > maxUint64 then (maxUint64, Some ErrRange)
      else parseUintLoop (n * 10 + digitVal c) cs)"

definition ParseUint :: "string \<Rightarrow> nat \<times> num_error option" where
  "ParseUint s = (if s = [] then (0, Some ErrSyntax) else parseUintLoop 0 s)"

text \<open>\<open>ParseInt(s, 10, 0)\<close> with \<open>IntSize = 64\<close>: sign, magnitude, clamping.\<close>

definition ParseInt :: "string \<Rightarrow> int \<times> num_error option" where
  "ParseInt s =
     (if s = [] then (0, Some ErrSyntax)
      else
        let neg = (hd s = CHR ''-'');
            s1 = (if hd s = CHR ''+'' \<or> hd s = CHR ''-'' then tl s else s);
            (un, err) = ParseUint s1
        in if err = Some ErrSyntax then (0, Some ErrSyntax)
           else if \<not> neg \<and> un \<ge> 2 ^ 63 then (2 ^ 63 - 1, Some ErrRange)
           else if neg \<and> un > 2 ^ 63 then (- (2 ^ 63), Some ErrRange)
           else (if neg then - int un else int un, None))"

text \<open>The fast path of \<open>Atoi\<close> for strings of 1 to 18 bytes: no overflow is possible.\<close>

fun atoiLoop :: "nat \<Rightarrow> string \<Rightarrow> nat option" where
  "atoiLoop n [] = Some n"
| "atoiLoop n (c # cs) = (if \<not> isDigit c then None else atoiLoop (n * 10 + digitVal c) cs)"

definition Atoi :: "string \<Rightarrow> int \<times> num_error option" where
  "Atoi s =
     (if 0 < length s \<and> length s < 19 then
        let s1 = (if hd s = CHR ''-'' \<or> hd s = CHR ''+'' then tl s else s)
        in if length s1 < 1 then (0, Some ErrSyntax)
           else (case atoiLoop 0 s1 of
                   None \<Rightarrow> (0, Some ErrSyntax)
                 | Some n \<Rightarrow> (if hd s = CHR ''-'' then - int n else int n, None))
      else ParseInt s)"

subsection \<open>Package path/filepath: Ext\<close>

text \<open>
  \<open>filepath.Ext\<close> scans from the end: the suffix that starts at the last dot of the last
  path element, empty when that element has no dot. \<open>extFrom\<close> reads the reversed
  path and collects what it has passed.
\<close>

fun extFrom :: "string \<Rightarrow> string \<Rightarrow> string" where
  "extFrom acc [] = []"
| "extFrom acc (c # cs) =
     (if c = CHR ''/'' then []
      else if c = CHR ''.'' then c # acc
      else extFrom (c # acc) cs)"

definition filepath_Ext :: "string \<Rightarrow> string" where
  "filepath_Ext path = extFrom [] (rev path)"

subsection \<open>Data\<close>

text \<open>The \<open>Config\<close> struct, field by field.\<close>

record Config =
  Dir :: string
  Day :: int
  Month :: int
  Year :: int
  AllDate :: string
  Recursive :: bool
  Extensions :: string
  OutputFormat :: string

text \<open>
  A \<open>time.Time\<close> as the program reads it: through \<open>Date()\<close> (year, month, day; the
  month is \<open>int(m)\<close>, from 1 to 12) and through \<open>Format\<close> (which needs the clock).
\<close>

record Time =
  t_year :: int
  t_month :: int
  t_day :: int
  t_hour :: int
  t_minute :: int
  t_second :: int

text \<open>An \<open>os.FileInfo\<close>: what \<open>Name()\<close>, \<open>Size()\<close> and \<open>ModTime()\<close> return.\<close>

record FileInfo =
  info_Name :: string
  info_Size :: int
  info_ModTime :: Time

text \<open>
  A Go \<open>map[string]bool\<close>, kept as its list of key/value pairs: a store replaces
  the pair of a key that is already there, \<open>len\<close> counts the keys and a lookup of a
  missing key gives \<open>false\<close>.
\<close>

type_synonym extmap = "(string \<times> bool) list"

definition map_len :: "extmap \<Rightarrow> nat" where
  "map_len m = card (fst ` set m)"

definition map_get :: "extmap \<Rightarrow> string \<Rightarrow> bool" where
  "map_get m k = (case map_of m k of None \<Rightarrow> False | Some b \<Rightarrow> b)"

fun map_set :: "extmap \<Rightarrow> string \<Rightarrow> bool \<Rightarrow> extmap" where
  "map_set [] k v = [(k, v)]"
| "map_set ((k', v') # m) k v = (if k' = k then (k, v) # m else (k', v') # map_set m k v)"

subsection \<open>isMatch\<close>

definition isMatch :: "lower_table \<Rightarrow> FileInfo \<Rightarrow> Config \<Rightarrow> extmap \<Rightarrow> bool" where
  "isMatch tbl info c exts =
     (if 0 < map_len exts \<and> \<not> map_get exts (ToLower tbl (filepath_Ext (info_Name info)))
      then False
      else
        let y = t_year (info_ModTime info);
            m = t_month (info_ModTime info);
            d = t_day (info_ModTime info);
            parts = Split (AllDate c) ''/''
        in if AllDate c \<noteq> [] \<and> length parts = 3 then
             (let reqD = fst (Atoi (parts ! 0));
                  reqM = fst (Atoi (parts ! 1));
                  reqY = fst (Atoi (parts ! 2))
              in if reqD \<noteq> d \<or> reqM \<noteq> m \<or> reqY \<noteq> y then False else True)
           else if Year c \<noteq> 0 \<and> Year c \<noteq> y then False
           else if Month c \<noteq> 0 \<and> Month c \<noteq> m then False
           else if Day c \<noteq> 0 \<and> Day c \<noteq> d then False
           else True)"

subsection \<open>The extension map of main\<close>

text \<open>
  The body of the loop over the comma-separated entries: trim, lower-case, and put a dot
  in front unless there is one.
\<close>

definition normalizeExt :: "lower_table \<Rightarrow> string \<Rightarrow> string" where
  "normalizeExt tbl p =
     (let ext = ToLower tbl (TrimSpace p)
      in if \<not> HasPrefix ext ''.'' then ''.'' @ ext else ext)"

definition buildAllowedExts :: "lower_table \<Rightarrow> string \<Rightarrow> extmap" where
  "buildAllowedExts tbl extensions =
     (if extensions \<noteq> []
      then foldl (\<lambda>m p. map_set m (normalizeExt tbl p) True) [] (Split extensions '','')
      else [])"

subsection \<open>Package fmt: the verbs the program uses\<close>

text \<open>\<open>%d\<close>: the decimal digits of an integer, with a minus sign when negative.\<close>

fun show_nat :: "nat \<Rightarrow> string" where
  "show_nat n =
     (if n < 10 then [char_of (48 + n)]
      else show_nat (n div 10) @ [char_of (48 + n mod 10)])"

declare show_nat.simps [simp del]

definition show_int :: "int \<Rightarrow> string" where
  "show_int i = (if i < 0 then CHR ''-'' # show_nat (nat (- i)) else show_nat (nat i))"

text \<open>
  \<open>float64(n)\<close> for an \<open>int64\<close>: exact up to 53 significant bits, and rounded to the
  nearest value with 53 significant bits, ties to even, beyond. The result is an integer
  again.
\<close>

fun bitLen :: "nat \<Rightarrow> nat" where
  "bitLen n = (if n = 0 then 0 else Suc (bitLen (n div 2)))"

declare bitLen.simps [simp del]

definition float64_of_nat :: "nat \<Rightarrow> nat" where
  "float64_of_nat n =
     (if n < 2 ^ 53 then n
      else
        let e = bitLen n - 53;
            q = n div 2 ^ e;
            r = n mod 2 ^ e;
            q' = (if 2 * r > 2 ^ e \<or> (2 * r = 2 ^ e \<and> odd q) then q + 1 else q)
        in q' * 2 ^ e)"

text \<open>
  \<open>Sprintf("%.2f", float64(n) / float64(unit))\<close> for a non-negative \<open>n\<close> and a unit
  that is a power of two. Such a division is exact in binary floating point, and
  \<open>%.2f\<close> prints the exact value rounded to two decimals, ties to even. So the text is
  fixed by the number of hundredths nearest to \<open>float64(n) / unit\<close>.
\<close>

definition hundredths :: "nat \<Rightarrow> nat \<Rightarrow> nat" where
  "hundredths f unit =
     (let q = (100 * f) div unit;
          r = (100 * f) mod unit
      in if 2 * r > unit \<or> (2 * r = unit \<and> odd q) then q + 1 else q)"

definition show_hundredths :: "nat \<Rightarrow> string" where
  "show_hundredths h =
     show_nat (h div 100) @ ''.'' @ [char_of (48 + h mod 100 div 10), char_of (48 + h mod 10)]"

definition Sprintf_2f :: "nat \<Rightarrow> nat \<Rightarrow> string" where
  "Sprintf_2f n unit = show_hundredths (hundredths (float64_of_nat n) unit)"

subsection \<open>formatSize and generateFilename\<close>

definition kb :: int where "kb = 1024"

definition mb :: int where "mb = kb * 1024"

definition gb :: int where "gb = mb * 1024"

definition formatSize :: "int \<Rightarrow> string" where
  "formatSize bytes =
     (if bytes \<ge> gb then Sprintf_2f (nat bytes) (nat gb) @ '' GB''
      else if bytes \<ge> mb then Sprintf_2f (nat bytes) (nat mb) @ '' MB''
      else if bytes \<ge> kb then Sprintf_2f (nat bytes) (nat kb) @ '' KB''
      else show_int bytes @ '' B'')"

definition generateFilename :: "string \<Rightarrow> string \<Rightarrow> string \<Rightarrow> string" where
  "generateFilename prefix exts suffix =
     (let extPart = (if exts \<noteq> [] then ReplaceAll exts '','' ''_'' else ''all'')
      in prefix @ ''_'' @ extPart @ ''.'' @ suffix)"

subsection \<open>Package path/filepath: Clean, Join, Dir\<close>

text \<open>\<open>strings.Join\<close>: the elements with \<open>sep\<close> between them.\<close>

fun strings_Join :: "string list \<Rightarrow> string \<Rightarrow> string" where
  "strings_Join [] sep = []"
| "strings_Join [x] sep = x"
| "strings_Join (x # y # ys) sep = x @ sep @ strings_Join (y # ys) sep"

text \<open>
  \<open>filepath.Clean\<close> on Unix, element by element. The elements kept so far are held
  last first. An empty element and \<open>.\<close> are dropped; \<open>..\<close> removes the element
  before it, is dropped at the root of a rooted path, and is kept at the front of a
  relative one.
\<close>

definition cleanElem :: "bool \<Rightarrow> string list \<Rightarrow> string \<Rightarrow> string list" where
  "cleanElem rooted kept e =
     (if e = [] \<or> e = ''.'' then kept
      else if e = ''..'' then
        (case kept of
           [] \<Rightarrow> (if rooted then [] else [''..''])
         | k # ks \<Rightarrow> (if k = ''..'' then ''..'' # k # ks else ks))
      else e # kept)"

definition filepath_Clean :: "string \<Rightarrow> string" where
  "filepath_Clean path =
     (if path = [] then ''.''
      else
        let rooted = (hd path = CHR ''/'');
            kept = foldl (cleanElem rooted) [] (Split path ''/'');
            body = strings_Join (rev kept) ''/''
        in if rooted then CHR ''/'' # body
           else if kept = [] then ''.'' else body)"

text \<open>\<open>filepath.Join\<close> of two elements: empty elements are ignored, the rest is cleaned.\<close>

definition filepath_Join :: "string \<Rightarrow> string \<Rightarrow> string" where
  "filepath_Join a b =
     (if a \<noteq> [] then filepath_Clean (a @ ''/'' @ b)
      else if b \<noteq> [] then filepath_Clean b
      else [])"

text \<open>\<open>filepath.Dir\<close>: the path up to its last separator, cleaned.\<close>

fun uptoLastSlash :: "string \<Rightarrow> string" where
  "uptoLastSlash [] = []"
| "uptoLastSlash (c # cs) =
     (if CHR ''/'' \<in> set cs then c # uptoLastSlash cs
      else if c = CHR ''/'' then [c] else [])"

definition filepath_Dir :: "string \<Rightarrow> string" where
  "filepath_Dir path = filepath_Clean (uptoLastSlash path)"

subsection \<open>Package time: Format with the layout of buildResult\<close>

text \<open>
  \<open>Format("2006-01-02 15:04:05")\<close>: the year on at least four digits (after a minus sign
  when negative), every other field on two.
\<close>

definition pad_nat :: "nat \<Rightarrow> nat \<Rightarrow> string" where
  "pad_nat width n = replicate (width - length (show_nat n)) (CHR ''0'') @ show_nat n"

definition pad_int :: "nat \<Rightarrow> int \<Rightarrow> string" where
  "pad_int width i = (if i < 0 then CHR ''-'' # pad_nat width (nat (- i)) else pad_nat width (nat i))"

definition time_Format :: "Time \<Rightarrow> string" where
  "time_Format t =
     pad_int 4 (t_year t) @ ''-'' @ pad_int 2 (t_month t) @ ''-'' @ pad_int 2 (t_day t) @ '' ''
     @ pad_int 2 (t_hour t) @ '':'' @ pad_int 2 (t_minute t) @ '':'' @ pad_int 2 (t_second t)"

subsection \<open>The file system and the state of a scan\<close>

text \<open>
  An error of the file system, as an \<open>*fs.PathError\<close>: operation, path and cause.
  \<open>os.IsNotExist\<close> asks for the cause \<open>ENOENT\<close>.
\<close>

datatype errno = ENOENT | EACCES | ENOTDIR | EIO

datatype fs_error = PathError string string errno

fun errno_text :: "errno \<Rightarrow> string" where
  "errno_text ENOENT = ''no such file or directory''"
| "errno_text EACCES = ''permission denied''"
| "errno_text ENOTDIR = ''not a directory''"
| "errno_text EIO = ''input/output error''"

fun error_text :: "fs_error \<Rightarrow> string" where
  "error_text (PathError op path e) = op @ '' '' @ path @ '': '' @ errno_text e"

fun IsNotExist :: "fs_error option \<Rightarrow> bool" where
  "IsNotExist None = False"
| "IsNotExist (Some (PathError op path e)) = (e = ENOENT)"

text \<open>
  A Go \<open>error\<close> value as \<open>filepath.WalkDir\<close> and its callback exchange them: the
  two sentinels, an error of the file system, and the run-time panic of a method call on
  a nil \<open>DirEntry\<close>.
\<close>

datatype go_error = SkipDir | SkipAll | FsError fs_error | NilPanic

fun go_error_text :: "go_error \<Rightarrow> string" where
  "go_error_text SkipDir = ''skip this directory''"
| "go_error_text SkipAll = ''skip everything and stop the walk''"
| "go_error_text (FsError e) = error_text e"
| "go_error_text NilPanic = ''invalid memory address or nil pointer dereference''"

text \<open>
  An \<open>os.DirEntry\<close> together with what the file system holds below it. A directory
  entry that is no directory (\<open>IsDir()\<close> false) carries its name and what \<open>Info()\<close>
  returns; a directory carries its name and what \<open>os.ReadDir\<close> returns on it: the
  entries it could read and the error, if any. The file system does not change during a
  scan.
\<close>

datatype node =
    FileNode string "fs_error + FileInfo"
  | DirNode string "node list" "fs_error option"

fun node_Name :: "node \<Rightarrow> string" where
  "node_Name (FileNode name i) = name"
| "node_Name (DirNode name entries err) = name"

fun node_IsDir :: "node \<Rightarrow> bool" where
  "node_IsDir (FileNode name i) = False"
| "node_IsDir (DirNode name entries err) = True"

text \<open>
  What the system calls of one run answer: \<open>os.Stat\<close>, \<open>os.Lstat\<close> (called by
  \<open>filepath.WalkDir\<close>) and \<open>os.ReadDir\<close> on the target directory, and
  \<open>os.Create\<close> on an output file name.
\<close>

record World =
  stat_err :: "fs_error option"
  lstat_root :: "fs_error + node"
  readdir_root :: "node list \<times> fs_error option"
  create_err :: "string \<Rightarrow> fs_error option"

text \<open>The \<open>FileResult\<close> struct.\<close>

record FileResult =
  Name :: string
  Path :: string
  LastModified :: string
  ModTimeRaw :: Time
  Size :: int

text \<open>
  What the program prints, one event for each call of a printing function with the
  values it is given (the global counters included, where the function reads them). The
  ANSI rendering of an event is not modelled, nor is the elapsed time of the summary.
\<close>

datatype event =
    PrintHeader
  | PrintInfo string
  | PrintSuccess string
  | PrintWarning string
  | PrintError string
  | PrintLiveDirectory string
  | PrintLiveScanning string int
  | PrintLiveMatch string int
  | PrintClearLine
  | PrintBlankLine
  | PrintSummary int int
  | PrintTableHeader
  | PrintTableRow string string string string

text \<open>The global variables, and the standard output written so far.\<close>

record Globals =
  scannedCount :: int
  matchCount :: int
  showLive :: bool
  stdout :: "event list"

definition emit :: "event \<Rightarrow> Globals \<Rightarrow> Globals" where
  "emit e g = g\<lparr>stdout := stdout g @ [e]\<rparr>"

definition printLiveDirectory :: "string \<Rightarrow> Globals \<Rightarrow> Globals" where
  "printLiveDirectory path g = emit (PrintLiveDirectory path) g"

definition printLiveScanning :: "string \<Rightarrow> Globals \<Rightarrow> Globals" where
  "printLiveScanning path g = emit (PrintLiveScanning path (scannedCount g)) g"

definition printLiveMatch :: "string \<Rightarrow> Globals \<Rightarrow> Globals" where
  "printLiveMatch path g = emit (PrintLiveMatch path (matchCount g)) g"

subsection \<open>buildResult, scanFlat\<close>

definition buildResult :: "string \<Rightarrow> FileInfo \<Rightarrow> FileResult" where
  "buildResult dir info =
     \<lparr>Name = info_Name info,
      Path = filepath_Join dir (info_Name info),
      LastModified = time_Format (info_ModTime info),
      ModTimeRaw = info_ModTime info,
      Size = info_Size info\<rparr>"

text \<open>
  The body of the loop of \<open>scanFlat\<close> for one entry: the counter goes up first, then a
  directory and an entry whose \<open>Info()\<close> fails are passed over.
\<close>

definition scanFlatEntry ::
  "lower_table \<Rightarrow> Config \<Rightarrow> extmap \<Rightarrow> node \<Rightarrow> FileResult list \<times> Globals \<Rightarrow> FileResult list \<times> Globals" where
  "scanFlatEntry tbl c exts entry st =
     (let (results, g0) = st;
          g1 = g0\<lparr>scannedCount := scannedCount g0 + 1\<rparr>
      in case entry of
           DirNode name entries err \<Rightarrow> (results, g1)
         | FileNode name (Inl err) \<Rightarrow> (results, g1)
         | FileNode name (Inr info) \<Rightarrow>
             (let g2 = (if showLive g1 then printLiveScanning (filepath_Join (Dir c) name) g1
                        else g1)
              in if isMatch tbl info c exts then
                   (let g3 = g2\<lparr>matchCount := matchCount g2 + 1\<rparr>;
                        g4 = (if showLive g3 then printLiveMatch (filepath_Join (Dir c) name) g3
                              else g3)
                    in (results @ [buildResult (Dir c) info], g4))
                 else (results, g2)))"

definition scanFlat ::
  "lower_table \<Rightarrow> Config \<Rightarrow> extmap \<Rightarrow> World \<Rightarrow> Globals \<Rightarrow> (FileResult list \<times> go_error option) \<times> Globals" where
  "scanFlat tbl c exts w g =
     (case readdir_root w of
        (entries, Some err) \<Rightarrow> (([], Some (FsError err)), g)
      | (entries, None) \<Rightarrow>
          (let (results, g') = foldl (\<lambda>st entry. scanFlatEntry tbl c exts entry st) ([], g) entries
           in ((results, None), g')))"

subsection \<open>filepath.WalkDir and scanRecursive\<close>

text \<open>
  \<open>walkDir\<close> of the library, for any callback \<open>fn\<close> and any state \<open>'s\<close> the
  callback works on. The callback is called on the entry; on a directory that it did not
  skip, \<open>os.ReadDir\<close> follows, the callback is called a second time when that failed,
  and the entries are walked in the order \<open>ReadDir\<close> gave them. \<open>SkipDir\<close> from a
  directory ends that directory only; from any other entry it ends the loop over the
  entries of the directory that holds it.
\<close>

fun walkDir ::
    "(string \<Rightarrow> node option \<Rightarrow> fs_error option \<Rightarrow> 's \<Rightarrow> go_error option \<times> 's)
      \<Rightarrow> string \<Rightarrow> node \<Rightarrow> 's \<Rightarrow> go_error option \<times> 's"
  and walkEntries ::
    "(string \<Rightarrow> node option \<Rightarrow> fs_error option \<Rightarrow> 's \<Rightarrow> go_error option \<times> 's)
      \<Rightarrow> string \<Rightarrow> node list \<Rightarrow> 's \<Rightarrow> go_error option \<times> 's" where
  "walkDir fn path (FileNode name i) s = fn path (Some (FileNode name i)) None s"
| "walkDir fn path (DirNode name entries rerr) s =
     (case fn path (Some (DirNode name entries rerr)) None s of
        (Some e, s1) \<Rightarrow> (if e = SkipDir then None else Some e, s1)
      | (None, s1) \<Rightarrow>
          (case rerr of
             Some re \<Rightarrow>
               (case fn path (Some (DirNode name entries rerr)) (Some re) s1 of
                  (Some e, s2) \<Rightarrow> (if e = SkipDir then None else Some e, s2)
                | (None, s2) \<Rightarrow> walkEntries fn path entries s2)
           | None \<Rightarrow> walkEntries fn path entries s1))"
| "walkEntries fn path [] s = (None, s)"
| "walkEntries fn path (d1 # ds) s =
     (case walkDir fn (filepath_Join path (node_Name d1)) d1 s of
        (Some e, s1) \<Rightarrow> (if e = SkipDir then None else Some e, s1)
      | (None, s1) \<Rightarrow> walkEntries fn path ds s1)"

definition WalkDir ::
  "(string \<Rightarrow> node option \<Rightarrow> fs_error option \<Rightarrow> 's \<Rightarrow> go_error option \<times> 's)
     \<Rightarrow> string \<Rightarrow> fs_error + node \<Rightarrow> 's \<Rightarrow> go_error option \<times> 's" where
  "WalkDir fn root lst s =
     (let (err, s') = (case lst of
                         Inl e \<Rightarrow> fn root None (Some e) s
                       | Inr d \<Rightarrow> walkDir fn root d s)
      in if err = Some SkipDir \<or> err = Some SkipAll then (None, s') else (err, s'))"

text \<open>The function literal that \<open>scanRecursive\<close> hands to \<open>filepath.WalkDir\<close>.\<close>

definition walkFn ::
  "lower_table \<Rightarrow> Config \<Rightarrow> extmap \<Rightarrow> string \<Rightarrow> node option \<Rightarrow> fs_error option
     \<Rightarrow> FileResult list \<times> Globals \<Rightarrow> go_error option \<times> FileResult list \<times> Globals" where
  "walkFn tbl c exts path d err st =
     (let (results, g0) = st
      in if err \<noteq> None then (Some SkipDir, st)
         else case d of
           None \<Rightarrow> (Some NilPanic, st)
         | Some (DirNode name entries rerr) \<Rightarrow>
             (None, results, if showLive g0 then printLiveDirectory path g0 else g0)
         | Some (FileNode name i) \<Rightarrow>
             (let g1 = g0\<lparr>scannedCount := scannedCount g0 + 1\<rparr>
              in case i of
                   Inl ierr \<Rightarrow> (None, results, g1)
                 | Inr info \<Rightarrow>
                     (let g2 = (if showLive g1 \<and> scannedCount g1 mod 50 = 0
                                then printLiveScanning path g1 else g1)
                      in if isMatch tbl info c exts then
                           (let g3 = g2\<lparr>matchCount := matchCount g2 + 1\<rparr>;
                                g4 = (if showLive g3 then printLiveMatch path g3 else g3)
                            in (None, results @ [buildResult (filepath_Dir path) info], g4))
                         else (None, results, g2))))"

definition scanRecursive ::
  "lower_table \<Rightarrow> Config \<Rightarrow> extmap \<Rightarrow> World \<Rightarrow> Globals \<Rightarrow> (FileResult list \<times> go_error option) \<times> Globals" where
  "scanRecursive tbl c exts w g =
     (let (err, results, g') = WalkDir (walkFn tbl c exts) (Dir c) (lstat_root w) ([], g)
      in ((results, err), g'))"

subsection \<open>The result formatters\<close>

text \<open>
  What a run leaves on disk: the files it created, with the records written to a JSON
  file, and the count and the table rows written to a Markdown file.
\<close>

datatype file_content = JSONFile "FileResult list" | MarkdownFile nat "string list"

type_synonym disk = "(string \<times> file_content) list"

definition printTabular :: "FileResult list \<Rightarrow> Globals \<Rightarrow> Globals" where
  "printTabular results g =
     (let g1 = emit PrintTableHeader
                 (emit PrintBlankLine (emit (PrintSuccess ''Search Results:'') (emit PrintBlankLine g)));
          g2 = foldl (\<lambda>g r. emit (PrintTableRow (LastModified r) (formatSize (Size r))
                                     (Name r) (Path r)) g) g1 results
      in emit PrintBlankLine g2)"

definition saveJSON ::
  "FileResult list \<Rightarrow> string \<Rightarrow> World \<Rightarrow> Globals \<times> disk \<Rightarrow> Globals \<times> disk" where
  "saveJSON results exts w st =
     (let (g, d) = st;
          filename = generateFilename ''output'' exts ''json''
      in case create_err w filename of
           Some err \<Rightarrow> (emit (PrintError (''Error creating file: '' @ error_text err)) g, d)
         | None \<Rightarrow> (emit (PrintSuccess (''JSON saved to: '' @ filename)) g,
                     d @ [(filename, JSONFile results)]))"

definition markdownRow :: "FileResult \<Rightarrow> string" where
  "markdownRow r =
     ''| '' @ LastModified r @ '' | '' @ formatSize (Size r) @ '' | '' @ Name r @ '' | ''
       @ ReplaceAll (Path r) ''|'' [CHR 0x5C, CHR ''|''] @ '' |''"

definition saveMarkdown ::
  "FileResult list \<Rightarrow> string \<Rightarrow> World \<Rightarrow> Globals \<times> disk \<Rightarrow> Globals \<times> disk" where
  "saveMarkdown results exts w st =
     (let (g, d) = st;
          filename = generateFilename ''output'' exts ''md''
      in case create_err w filename of
           Some err \<Rightarrow> (emit (PrintError (''Error creating file: '' @ error_text err)) g, d)
         | None \<Rightarrow> (emit (PrintSuccess (''Markdown saved to: '' @ filename)) g,
                     d @ [(filename, MarkdownFile (length results) (map markdownRow results))]))"

definition handleOutput ::
  "lower_table \<Rightarrow> FileResult list \<Rightarrow> Config \<Rightarrow> World \<Rightarrow> Globals \<times> disk \<Rightarrow> Globals \<times> disk" where
  "handleOutput tbl results c w st =
     (if ToLower tbl (OutputFormat c) = ''json'' then saveJSON results (Extensions c) w st
      else if ToLower tbl (OutputFormat c) = ''md'' then saveMarkdown results (Extensions c) w st
      else (printTabular results (fst st), snd st))"

subsection \<open>main\<close>

definition printDateFilter :: "Config \<Rightarrow> Globals \<Rightarrow> Globals" where
  "printDateFilter c g =
     (if AllDate c \<noteq> [] then emit (PrintInfo (''Date Filter: Exact match for '' @ AllDate c)) g
      else
        let parts = (if Day c \<noteq> 0 then [''Day='' @ show_int (Day c)] else [])
                  @ (if Month c \<noteq> 0 then [''Month='' @ show_int (Month c)] else [])
                  @ (if Year c \<noteq> 0 then [''Year='' @ show_int (Year c)] else [])
        in if length parts > 0
           then emit (PrintInfo (''Date Filter: '' @ strings_Join parts '', '')) g
           else g)"

text \<open>What \<open>main\<close> prints between the check of the directory and the scan.\<close>

definition announce :: "Config \<Rightarrow> Globals \<Rightarrow> Globals" where
  "announce c g =
     (let g1 = emit (PrintInfo (''Target: '' @ Dir c)) (emit PrintHeader g);
          g2 = emit (PrintInfo (if Recursive c then ''Mode: Deep Scan (Recursive Traversal)''
                                else ''Mode: Flat Scan (Current Folder Only)'')) g1;
          g3 = (if Extensions c \<noteq> []
                then emit (PrintInfo (''Filter: '' @ Extensions c @ '' files'')) g2 else g2)
      in emit PrintBlankLine (printDateFilter c g3))"

text \<open>
  A run: the exit status, the final values of the global variables (the standard
  output among them) and the files created. \<open>main\<close> starts from the configuration
  that \<open>parseFlags\<close> returned.
\<close>

record Run =
  exit_status :: int
  globals :: Globals
  created :: disk

text \<open>
  The global variables when \<open>main\<close> has set \<open>showLive\<close>: the counters at their
  zero value, nothing printed yet.
\<close>

definition initial_Globals :: "Config \<Rightarrow> Globals" where
  "initial_Globals c =
     \<lparr>scannedCount = 0, matchCount = 0,
      showLive = (OutputFormat c = ''json'' \<or> OutputFormat c = ''md''),
      stdout = []\<rparr>"

definition main :: "lower_table \<Rightarrow> Config \<Rightarrow> World \<Rightarrow> Run" where
  "main tbl c w =
     (let g0 = initial_Globals c
      in if IsNotExist (stat_err w) then
           \<lparr>exit_status = 1,
            globals = emit (PrintError (''Directory '' @ [CHR 0x27] @ Dir c @ [CHR 0x27]
                                          @ '' does not exist.'')) g0,
            created = []\<rparr>
         else
           let allowedExts = buildAllowedExts tbl (Extensions c);
               g1 = announce c g0;
               ((results, err), g2) = (if Recursive c then scanRecursive tbl c allowedExts w g1
                                       else scanFlat tbl c allowedExts w g1);
               g3 = (if showLive g2 then emit PrintClearLine g2 else g2)
           in case err of
                Some e \<Rightarrow>
                  \<lparr>exit_status = 1,
                   globals = emit (PrintError (''Error scanning: '' @ go_error_text e)) g3,
                   created = []\<rparr>
              | None \<Rightarrow>
                  (let g4 = emit (PrintSummary (scannedCount g3) (int (length results))) g3
                   in if length results = 0 then
                        \<lparr>exit_status = 0,
                         globals = emit (PrintWarning ''No files found matching your criteria.'') g4,
                         created = []\<rparr>
                      else
                        let (g5, d) = handleOutput tbl results c w (g4, [])
                        in \<lparr>exit_status = 0, globals = g5, created = d\<rparr>))"

subsection \<open>What a traversal reaches\<close>

text \<open>
  The entries that are no directories, among the entries of one directory; and below a
  node, those that a walk reaches: the node itself when it is no directory, nothing below
  a directory that could not be read.
\<close>

definition fileEntries :: "node list \<Rightarrow> nat" where
  "fileEntries entries = length (filter (\<lambda>e. \<not> node_IsDir e) entries)"

fun walkedFiles :: "node \<Rightarrow> nat"
  and walkedFilesIn :: "node list \<Rightarrow> nat" where
  "walkedFiles (FileNode name i) = 1"
| "walkedFiles (DirNode name entries rerr) = (if rerr = None then walkedFilesIn entries else 0)"
| "walkedFilesIn [] = 0"
| "walkedFilesIn (e # es) = walkedFiles e + walkedFilesIn es"

text \<open>
  A table to run the definitions on: the rows of the case table for the capital letters
  of Latin-1 (\<open>0xC0\<close> to \<open>0xDE\<close>, the multiplication sign excepted), every other
  rune left as it is.
\<close>

definition latin1_lower :: lower_table where
  "latin1_lower r = (if 0xC0 \<le> r \<and> r \<le> 0xDE \<and> r \<noteq> 0xD7 then r + 32 else r)"

text \<open>The configuration \<open>parseFlags\<close> returns when no flag is given.\<close>

definition default_Config :: Config where
  "default_Config =
     \<lparr>Dir = ''.'', Day = 0, Month = 0, Year = 0, AllDate = [], Recursive = False,
      Extensions = [], OutputFormat = ''tabular''\<rparr>"

text \<open>Two files to run the definitions on: one modified on 15 January 2024, one on 1 June 2023.\<close>

definition file_a_go :: FileInfo where
  "file_a_go =
     \<lparr>info_Name = ''a.go'', info_Size = 1536,
      info_ModTime = \<lparr>t_year = 2024, t_month = 1, t_day = 15,
                      t_hour = 9, t_minute = 5, t_second = 0\<rparr>\<rparr>"

definition file_b_py :: FileInfo where
  "file_b_py =
     \<lparr>info_Name = ''b.py'', info_Size = 0,
      info_ModTime = \<lparr>t_year = 2023, t_month = 6, t_day = 1,
                      t_hour = 23, t_minute = 59, t_second = 59\<rparr>\<rparr>"

text \<open>
  A directory to scan: two files, a directory that cannot be read (with a file in it), an
  entry whose \<open>Info()\<close> fails, and a second directory with one file.
\<close>

definition sample_tree :: node where
  "sample_tree =
     DirNode ''proj''
       [FileNode ''a.go'' (Inr file_a_go),
        FileNode ''b.py'' (Inr file_b_py),
        DirNode ''locked'' [FileNode ''z.go'' (Inr (file_a_go\<lparr>info_Name := ''z.go''\<rparr>))]
          (Some (PathError ''open'' ''proj/locked'' EACCES)),
        FileNode ''gone.go'' (Inl (PathError ''lstat'' ''proj/gone.go'' ENOENT)),
        DirNode ''sub'' [FileNode ''c.go'' (Inr (file_a_go\<lparr>info_Name := ''c.go''\<rparr>))] None]
       None"

definition sample_World :: World where
  "sample_World =
     \<lparr>stat_err = None,
      lstat_root = Inr sample_tree,
      readdir_root = (case sample_tree of DirNode name entries rerr \<Rightarrow> (entries, rerr)
                      | FileNode name i \<Rightarrow> ([], Some (PathError ''open'' name ENOTDIR))),
      create_err = (\<lambda>filename. None)\<rparr>"

definition sample_Config :: Config where
  "sample_Config = default_Config\<lparr>Dir := ''proj'', Extensions := ''go''\<rparr>"

definition zero_Globals :: Globals where
  "zero_Globals = \<lparr>scannedCount = 0, matchCount = 0, showLive = False, stdout = []\<rparr>"

section \<open>The match predicate\<close>

lemma Atoi_syntax_zero: "snd (Atoi s) = Some ErrSyntax \<Longrightarrow> fst (Atoi s) = 0"
  by (auto simp: Atoi_def ParseInt_def Let_def split: if_splits option.splits prod.splits)

lemma Split_empty_slash: "Split [] ''/'' = [[]]"
  by (simp add: Split_def)

lemma isMatch_three_parts:
  "length (Split (AllDate c) ''/'') = 3 \<Longrightarrow>
      isMatch tbl info c exts =
        ((map_len exts = 0 \<or> map_get exts (ToLower tbl (filepath_Ext (info_Name info))))
         \<and> t_day (info_ModTime info) = fst (Atoi (Split (AllDate c) ''/'' ! 0))
         \<and> t_month (info_ModTime info) = fst (Atoi (Split (AllDate c) ''/'' ! 1))
         \<and> t_year (info_ModTime info) = fst (Atoi (Split (AllDate c) ''/'' ! 2)))"
proof -
  assume len: "length (Split (AllDate c) ''/'') = 3"
  have "AllDate c \<noteq> []"
    using len by (auto simp: Split_empty_slash)
  with len show ?thesis
    by (auto simp: isMatch_def Let_def)
qed

lemma isMatch_not_three_parts:
  "length (Split (AllDate c) ''/'') \<noteq> 3 \<Longrightarrow>
     isMatch tbl info c exts = isMatch tbl info (c\<lparr>AllDate := []\<rparr>) exts"
  by (simp add: isMatch_def Let_def)

lemma Split_15_1_2024: "Split ''15/1/2024'' ''/'' = [''15'', ''1'', ''2024'']"
  by (simp add: Split_def HasPrefix_def)

lemma Atoi_15: "Atoi ''15'' = (15, None)"
  by (simp add: Atoi_def isDigit_def digitVal_def)

lemma Atoi_1: "Atoi ''1'' = (1, None)"
  by (simp add: Atoi_def isDigit_def digitVal_def)

lemma Atoi_2024: "Atoi ''2024'' = (2024, None)"
  by (simp add: Atoi_def isDigit_def digitVal_def)

text \<open>
  C1. When the combined date is present, splits at \<open>/\<close> into three components and
  \<open>Atoi\<close> reads each of them without error, \<open>isMatch\<close> accepts exactly when the
  extension check passes and the day, the month and the year of the modification date
  equal the three numbers; the fields \<open>Day\<close>, \<open>Month\<close> and \<open>Year\<close> of the
  configuration have no influence, whatever their values.
\<close>

theorem exact_date_sole_criterion:
  assumes present: "AllDate c \<noteq> []"
    and parts: "Split (AllDate c) ''/'' = [pd, pm, py]"
    and wf: "Atoi pd = (reqD, None)" "Atoi pm = (reqM, None)" "Atoi py = (reqY, None)"
  shows "isMatch tbl info c exts =
           ((map_len exts = 0 \<or> map_get exts (ToLower tbl (filepath_Ext (info_Name info))))
            \<and> t_day (info_ModTime info) = reqD
            \<and> t_month (info_ModTime info) = reqM
            \<and> t_year (info_ModTime info) = reqY)
         \<and> isMatch tbl info (c\<lparr>Day := d', Month := m', Year := y'\<rparr>) exts = isMatch tbl info c exts"
  using assms by (auto simp: isMatch_def Let_def)

theorem exact_date_sole_criterion_witness:
  "AllDate (default_Config\<lparr>AllDate := ''15/1/2024''\<rparr>) \<noteq> []
   \<and> Split (AllDate (default_Config\<lparr>AllDate := ''15/1/2024''\<rparr>)) ''/'' = [''15'', ''1'', ''2024'']
   \<and> Atoi ''15'' = (15, None) \<and> Atoi ''1'' = (1, None) \<and> Atoi ''2024'' = (2024, None)
   \<and> isMatch latin1_lower file_a_go (default_Config\<lparr>AllDate := ''15/1/2024''\<rparr>) []
   \<and> isMatch latin1_lower file_a_go (default_Config\<lparr>AllDate := ''15/1/2024'', Day := 3, Month := 7, Year := 1999\<rparr>) []
   \<and> \<not> isMatch latin1_lower file_b_py (default_Config\<lparr>AllDate := ''15/1/2024'', Day := 1, Month := 6, Year := 2023\<rparr>) []"
proof -
  let ?c = "default_Config\<lparr>AllDate := ''15/1/2024''\<rparr>"
  have h1: "AllDate ?c \<noteq> []" by simp
  have h2: "Split (AllDate ?c) ''/'' = [''15'', ''1'', ''2024'']"
    by (simp add: Split_15_1_2024)
  note a = exact_date_sole_criterion [where tbl = latin1_lower and info = file_a_go
      and exts = "[]" and d' = 3
      and m' = 7 and y' = 1999, OF h1 h2 Atoi_15 Atoi_1 Atoi_2024]
  note b = exact_date_sole_criterion [where tbl = latin1_lower and info = file_b_py
      and exts = "[]" and d' = 1
      and m' = 6 and y' = 2023, OF h1 h2 Atoi_15 Atoi_1 Atoi_2024]
  have a1: "isMatch latin1_lower file_a_go ?c []"
    using a by (simp add: file_a_go_def map_len_def)
  have a2: "isMatch latin1_lower file_a_go (?c\<lparr>Day := 3, Month := 7, Year := 1999\<rparr>) []"
    using a a1 by simp
  have b1: "\<not> isMatch latin1_lower file_b_py ?c []"
    using b by (simp add: file_b_py_def map_len_def)
  have b2: "\<not> isMatch latin1_lower file_b_py (?c\<lparr>Day := 1, Month := 6, Year := 2023\<rparr>) []"
    using b b1 by simp
  show ?thesis
    using h1 h2 a1 a2 b2 by (simp add: Atoi_15 Atoi_1 Atoi_2024 default_Config_def)
qed

text \<open>
  C2, as the code has it. A combined date that splits at \<open>/\<close> into exactly three
  components always governs the date decision, whether or not the components are
  integers: each is read by \<open>Atoi\<close>, whose error is dropped, so a component that is no
  integer counts as 0 and the filter then rejects every file whose day, month and year
  are at least 1. Only a combined date that does not split into exactly three components
  is ignored: \<open>isMatch\<close> then answers as if it were absent. \<open>isMatch\<close> returns a
  \<open>bool\<close> in every case: no error is reported.
\<close>

theorem exact_date_three_parts_governs:
  "(length (Split (AllDate c) ''/'') = 3 \<longrightarrow>
      isMatch tbl info c exts =
        ((map_len exts = 0 \<or> map_get exts (ToLower tbl (filepath_Ext (info_Name info))))
         \<and> t_day (info_ModTime info) = fst (Atoi (Split (AllDate c) ''/'' ! 0))
         \<and> t_month (info_ModTime info) = fst (Atoi (Split (AllDate c) ''/'' ! 1))
         \<and> t_year (info_ModTime info) = fst (Atoi (Split (AllDate c) ''/'' ! 2))))
   \<and> (length (Split (AllDate c) ''/'') = 3
        \<and> (\<exists>i < 3. snd (Atoi (Split (AllDate c) ''/'' ! i)) = Some ErrSyntax)
        \<and> 1 \<le> t_day (info_ModTime info) \<and> 1 \<le> t_month (info_ModTime info)
        \<and> 1 \<le> t_year (info_ModTime info)
      \<longrightarrow> \<not> isMatch tbl info c exts)
   \<and> (length (Split (AllDate c) ''/'') \<noteq> 3 \<longrightarrow>
        isMatch tbl info c exts = isMatch tbl info (c\<lparr>AllDate := []\<rparr>) exts)"
proof (intro conjI impI)
  assume "length (Split (AllDate c) ''/'') = 3"
  then show "isMatch tbl info c exts =
        ((map_len exts = 0 \<or> map_get exts (ToLower tbl (filepath_Ext (info_Name info))))
         \<and> t_day (info_ModTime info) = fst (Atoi (Split (AllDate c) ''/'' ! 0))
         \<and> t_month (info_ModTime info) = fst (Atoi (Split (AllDate c) ''/'' ! 1))
         \<and> t_year (info_ModTime info) = fst (Atoi (Split (AllDate c) ''/'' ! 2)))"
    by (rule isMatch_three_parts)
next
  assume a: "length (Split (AllDate c) ''/'') = 3
        \<and> (\<exists>i < 3. snd (Atoi (Split (AllDate c) ''/'' ! i)) = Some ErrSyntax)
        \<and> 1 \<le> t_day (info_ModTime info) \<and> 1 \<le> t_month (info_ModTime info)
        \<and> 1 \<le> t_year (info_ModTime info)"
  then obtain i :: nat where i: "i < 3"
    and bad: "snd (Atoi (Split (AllDate c) ''/'' ! i)) = Some ErrSyntax"
    by blast
  from bad have zero: "fst (Atoi (Split (AllDate c) ''/'' ! i)) = 0"
    by (rule Atoi_syntax_zero)
  from i have "i = 0 \<or> i = 1 \<or> i = 2" by arith
  with zero a show "\<not> isMatch tbl info c exts"
    by (auto simp: isMatch_three_parts)
next
  assume "length (Split (AllDate c) ''/'') \<noteq> 3"
  then show "isMatch tbl info c exts = isMatch tbl info (c\<lparr>AllDate := []\<rparr>) exts"
    by (rule isMatch_not_three_parts)
qed

lemma Split_15_x_2024: "Split ''15/x/2024'' ''/'' = [''15'', ''x'', ''2024'']"
  by (simp add: Split_def HasPrefix_def)

lemma Split_15_1: "Split ''15/1'' ''/'' = [''15'', ''1'']"
  by (simp add: Split_def HasPrefix_def)

lemma Atoi_x: "Atoi ''x'' = (0, Some ErrSyntax)"
  by (simp add: Atoi_def isDigit_def)

theorem exact_date_three_parts_governs_witness:
  "length (Split (AllDate (default_Config\<lparr>AllDate := ''15/x/2024''\<rparr>)) ''/'') = 3
   \<and> snd (Atoi (Split (AllDate (default_Config\<lparr>AllDate := ''15/x/2024''\<rparr>)) ''/'' ! 1))
       = Some ErrSyntax
   \<and> \<not> isMatch latin1_lower file_a_go (default_Config\<lparr>AllDate := ''15/x/2024''\<rparr>) []
   \<and> length (Split (AllDate (default_Config\<lparr>AllDate := ''15/1''\<rparr>)) ''/'') \<noteq> 3
   \<and> isMatch latin1_lower file_a_go (default_Config\<lparr>AllDate := ''15/1''\<rparr>) []
   \<and> isMatch latin1_lower file_a_go (default_Config\<lparr>AllDate := ''15/1''\<rparr>) []
       = isMatch latin1_lower file_a_go (default_Config\<lparr>AllDate := ''15/1'', AllDate := []\<rparr>) []"
proof -
  let ?bad = "default_Config\<lparr>AllDate := ''15/x/2024''\<rparr>"
  let ?short = "default_Config\<lparr>AllDate := ''15/1''\<rparr>"
  have len: "length (Split (AllDate ?bad) ''/'') = 3"
    by (simp add: Split_15_x_2024)
  have bad: "snd (Atoi (Split (AllDate ?bad) ''/'' ! 1)) = Some ErrSyntax"
    by (simp add: Split_15_x_2024 Atoi_x)
  have ex: "\<exists>i < 3. snd (Atoi (Split (AllDate ?bad) ''/'' ! i)) = Some ErrSyntax"
    using bad by (intro exI [of _ "1::nat"]) simp
  have dates: "1 \<le> t_day (info_ModTime file_a_go) \<and> 1 \<le> t_month (info_ModTime file_a_go)
      \<and> 1 \<le> t_year (info_ModTime file_a_go)"
    by (simp add: file_a_go_def)
  have rej: "\<not> isMatch latin1_lower file_a_go ?bad []"
    using exact_date_three_parts_governs [of ?bad latin1_lower file_a_go "[]"] len ex dates by blast
  have nlen: "length (Split (AllDate ?short) ''/'') \<noteq> 3"
    by (simp add: Split_15_1)
  have same: "isMatch latin1_lower file_a_go ?short [] = isMatch latin1_lower file_a_go (?short\<lparr>AllDate := []\<rparr>) []"
    using exact_date_three_parts_governs [of ?short latin1_lower file_a_go "[]"] nlen by blast
  have acc: "isMatch latin1_lower file_a_go (?short\<lparr>AllDate := []\<rparr>) []"
    by (simp add: isMatch_def default_Config_def Split_def map_len_def)
  show ?thesis
    using len bad rej nlen same acc by simp
qed

text \<open>
  C2 as the specification states it fails: \<open>x/1/2024\<close> has three components, the first
  of which is no integer, yet the filter is not ignored. With no other filter set, the
  independent fields would accept the file (as they do when the combined date is absent);
  the code rejects it.
\<close>

theorem invalid_component_not_ignored:
  "Split ''x/1/2024'' ''/'' = [''x'', ''1'', ''2024'']
   \<and> Atoi ''x'' = (0, Some ErrSyntax)
   \<and> \<not> isMatch latin1_lower file_a_go (default_Config\<lparr>AllDate := ''x/1/2024''\<rparr>) []
   \<and> isMatch latin1_lower file_a_go (default_Config\<lparr>AllDate := []\<rparr>) []"
proof -
  have s: "Split ''x/1/2024'' ''/'' = [''x'', ''1'', ''2024'']"
    by (simp add: Split_def HasPrefix_def)
  have r: "\<not> isMatch latin1_lower file_a_go (default_Config\<lparr>AllDate := ''x/1/2024''\<rparr>) []"
    by (simp add: isMatch_def s Atoi_x file_a_go_def map_len_def)
  have a: "isMatch latin1_lower file_a_go (default_Config\<lparr>AllDate := []\<rparr>) []"
    by (simp add: isMatch_def default_Config_def Split_def map_len_def)
  show ?thesis
    using s r a by (simp add: Atoi_x)
qed

text \<open>
  C3. With a non-empty extension map, a file whose lower-cased extension the map does
  not hold (a missing key, or a key stored with \<open>false\<close>) is rejected, whatever the
  dates of the file and the date fields of the configuration are. The lower-casing is
  that of \<open>strings.ToLower\<close> with any case table.
\<close>

theorem ext_not_member_rejects:
  "0 < map_len exts \<Longrightarrow> \<not> map_get exts (ToLower tbl (filepath_Ext (info_Name info)))
     \<Longrightarrow> \<not> isMatch tbl info c exts"
  by (simp add: isMatch_def)

lemma ext_a_go: "ToLower latin1_lower (filepath_Ext (info_Name file_a_go)) = ''.go''"
  by (simp add: file_a_go_def filepath_Ext_def ToLower_def isASCII_def lowerByte_def isUpper_def)

lemmas utf8_eval = ToLower_def isASCII_def strings_Map_def runes.simps unicode_ToLower_def
  latin1_lower_def EncodeRune_def validRune_def RuneError_def char_of_def bit_Suc_0_iff Let_def
  lowerByte_def isUpper_def

lemma ext_e_acute:
  "ToLower latin1_lower (filepath_Ext [CHR ''a'', CHR ''.'', CHR 0xC3, CHR 0x89])
     = [CHR ''.'', CHR 0xC3, CHR 0xA9]"
  by (simp add: filepath_Ext_def utf8_eval)

theorem ext_not_member_rejects_witness:
  "0 < map_len [(''.py'', True)]
   \<and> \<not> map_get [(''.py'', True)] (ToLower latin1_lower (filepath_Ext (info_Name file_a_go)))
   \<and> \<not> isMatch latin1_lower file_a_go default_Config [(''.py'', True)]
   \<and> \<not> isMatch latin1_lower file_a_go (default_Config\<lparr>AllDate := ''15/1/2024''\<rparr>)
         [(''.py'', True)]
   \<and> isMatch latin1_lower file_a_go default_Config []
   \<and> 0 < map_len [([CHR ''.'', CHR 0xC3, CHR 0x89], True)]
   \<and> \<not> map_get [([CHR ''.'', CHR 0xC3, CHR 0x89], True)]
         (ToLower latin1_lower
            (filepath_Ext (info_Name (file_a_go\<lparr>info_Name := [CHR ''a'', CHR ''.'', CHR 0xC3, CHR 0x89]\<rparr>))))
   \<and> \<not> isMatch latin1_lower (file_a_go\<lparr>info_Name := [CHR ''a'', CHR ''.'', CHR 0xC3, CHR 0x89]\<rparr>)
         default_Config [([CHR ''.'', CHR 0xC3, CHR 0x89], True)]"
proof -
  let ?e = "file_a_go\<lparr>info_Name := [CHR ''a'', CHR ''.'', CHR 0xC3, CHR 0x89]\<rparr>"
  let ?m = "[([CHR ''.'', CHR 0xC3, CHR 0x89], True)]"
  have h1: "0 < map_len [(''.py'', True)]"
    by (simp add: map_len_def)
  have h2: "\<not> map_get [(''.py'', True)] (ToLower latin1_lower (filepath_Ext (info_Name file_a_go)))"
    by (simp add: ext_a_go map_get_def)
  have acc: "isMatch latin1_lower file_a_go default_Config []"
    by (simp add: isMatch_def default_Config_def Split_def map_len_def)
  have k1: "0 < map_len ?m"
    by (simp add: map_len_def)
  have k2: "\<not> map_get ?m (ToLower latin1_lower (filepath_Ext (info_Name ?e)))"
    by (simp add: ext_e_acute map_get_def)
  show ?thesis
    using h1 h2 acc k1 k2 ext_not_member_rejects [OF h1 h2, of default_Config]
      ext_not_member_rejects [OF h1 h2, of "default_Config\<lparr>AllDate := ''15/1/2024''\<rparr>"]
      ext_not_member_rejects [OF k1 k2, of default_Config]
    by simp
qed

text \<open>
  C4, as the code has it. When the combined date is absent, or does not split at \<open>/\<close>
  into exactly three components, the date decision is the conjunction of the independent
  filters: each of \<open>Year\<close>, \<open>Month\<close>, \<open>Day\<close> that is not 0 must equal the
  corresponding field of the modification date, and a 0 constrains nothing. With all
  three 0, only the extension check decides.
\<close>

theorem partial_date_conjunction:
  assumes "AllDate c = [] \<or> length (Split (AllDate c) ''/'') \<noteq> 3"
  shows "isMatch tbl info c exts =
           ((map_len exts = 0 \<or> map_get exts (ToLower tbl (filepath_Ext (info_Name info))))
            \<and> (Year c = 0 \<or> Year c = t_year (info_ModTime info))
            \<and> (Month c = 0 \<or> Month c = t_month (info_ModTime info))
            \<and> (Day c = 0 \<or> Day c = t_day (info_ModTime info)))
         \<and> (Year c = 0 \<and> Month c = 0 \<and> Day c = 0 \<longrightarrow>
              isMatch tbl info c exts =
                (map_len exts = 0 \<or> map_get exts (ToLower tbl (filepath_Ext (info_Name info)))))"
  using assms by (auto simp: isMatch_def Let_def)

theorem partial_date_conjunction_witness:
  "AllDate (default_Config\<lparr>Year := 2024, Month := 6\<rparr>) = []
   \<and> \<not> isMatch latin1_lower file_a_go (default_Config\<lparr>Year := 2024, Month := 6\<rparr>) []
   \<and> isMatch latin1_lower file_a_go (default_Config\<lparr>Year := 2024\<rparr>) []
   \<and> isMatch latin1_lower file_b_py default_Config []
   \<and> length (Split (AllDate (default_Config\<lparr>AllDate := ''15/1'', Day := 15\<rparr>)) ''/'') \<noteq> 3
   \<and> isMatch latin1_lower file_a_go (default_Config\<lparr>AllDate := ''15/1'', Day := 15\<rparr>) []"
proof -
  let ?ym = "default_Config\<lparr>Year := 2024, Month := 6\<rparr>"
  let ?y = "default_Config\<lparr>Year := 2024\<rparr>"
  let ?s = "default_Config\<lparr>AllDate := ''15/1'', Day := 15\<rparr>"
  have h1: "AllDate ?ym = []" by (simp add: default_Config_def)
  have h2: "AllDate ?y = []" by (simp add: default_Config_def)
  have h3: "AllDate default_Config = []" by (simp add: default_Config_def)
  have h4: "length (Split (AllDate ?s) ''/'') \<noteq> 3" by (simp add: Split_15_1)
  have r1: "\<not> isMatch latin1_lower file_a_go ?ym []"
    using partial_date_conjunction [of ?ym latin1_lower file_a_go "[]"] h1
    by (simp add: file_a_go_def default_Config_def)
  have r2: "isMatch latin1_lower file_a_go ?y []"
    using partial_date_conjunction [of ?y latin1_lower file_a_go "[]"] h2
    by (simp add: file_a_go_def default_Config_def map_len_def)
  have r3: "isMatch latin1_lower file_b_py default_Config []"
    using partial_date_conjunction [of default_Config latin1_lower file_b_py "[]"] h3
    by (simp add: default_Config_def map_len_def)
  have r4: "isMatch latin1_lower file_a_go ?s []"
    using partial_date_conjunction [of ?s latin1_lower file_a_go "[]"] h4
    by (simp add: file_a_go_def default_Config_def map_len_def)
  show ?thesis
    using h1 h4 r1 r2 r3 r4 by simp
qed

text \<open>
  C4 as the specification states it fails when "malformed" covers a combined date with a
  component that is no integer: \<open>15/Jan/2024\<close> is such a date, the independent filters
  (year 2024, month 1, day unset) all hold for the file, and the code rejects it.
\<close>

theorem malformed_three_parts_no_fallback:
  "Split ''15/Jan/2024'' ''/'' = [''15'', ''Jan'', ''2024'']
   \<and> Atoi ''Jan'' = (0, Some ErrSyntax)
   \<and> Year (default_Config\<lparr>AllDate := ''15/Jan/2024'', Year := 2024, Month := 1\<rparr>)
       = t_year (info_ModTime file_a_go)
   \<and> Month (default_Config\<lparr>AllDate := ''15/Jan/2024'', Year := 2024, Month := 1\<rparr>)
       = t_month (info_ModTime file_a_go)
   \<and> Day (default_Config\<lparr>AllDate := ''15/Jan/2024'', Year := 2024, Month := 1\<rparr>) = 0
   \<and> \<not> isMatch latin1_lower file_a_go
         (default_Config\<lparr>AllDate := ''15/Jan/2024'', Year := 2024, Month := 1\<rparr>) []"
proof -
  have s: "Split ''15/Jan/2024'' ''/'' = [''15'', ''Jan'', ''2024'']"
    by (simp add: Split_def HasPrefix_def)
  have a: "Atoi ''Jan'' = (0, Some ErrSyntax)"
    by (simp add: Atoi_def isDigit_def)
  have r: "\<not> isMatch latin1_lower file_a_go
         (default_Config\<lparr>AllDate := ''15/Jan/2024'', Year := 2024, Month := 1\<rparr>) []"
    by (simp add: isMatch_def s a file_a_go_def map_len_def)
  show ?thesis
    using s a r by (simp add: default_Config_def file_a_go_def)
qed

section \<open>The traversals\<close>

lemma walkFn_err:
  "walkFn tbl c exts path d (Some e) st = (Some SkipDir, st)"
  by (simp add: walkFn_def split: prod.splits)

lemma walkFn_dir:
  "walkFn tbl c exts path (Some (DirNode name es rerr)) None (rs, g)
     = (None, rs, if showLive g then printLiveDirectory path g else g)"
  by (simp add: walkFn_def)

lemma walkFn_file_ret:
  "fst (walkFn tbl c exts path (Some (FileNode name i)) None st) = None"
  by (cases st; cases i) (simp_all add: walkFn_def Let_def)

lemma walkFn_file_count:
  "scannedCount (snd (snd (walkFn tbl c exts path (Some (FileNode name i)) None st)))
     = scannedCount (snd st) + 1"
  by (cases st; cases i)
    (simp_all add: walkFn_def Let_def printLiveScanning_def printLiveMatch_def emit_def)

lemma walkDir_unreadable:
  "walkDir (walkFn tbl c exts) path (DirNode name es (Some e)) (rs, g)
     = (None, rs, if showLive g then printLiveDirectory path g else g)"
  by (simp add: walkFn_dir walkFn_err)

lemma walkDir_readable:
  "walkDir (walkFn tbl c exts) path (DirNode name es None) (rs, g)
     = walkEntries (walkFn tbl c exts) path es
         (rs, if showLive g then printLiveDirectory path g else g)"
  by (simp add: walkFn_dir)

lemma walkDir_file:
  "walkDir (walkFn tbl c exts) path (FileNode name i) st
     = walkFn tbl c exts path (Some (FileNode name i)) None st"
  by simp

lemma printLiveDirectory_count [simp]:
  "scannedCount (printLiveDirectory path g) = scannedCount g"
  by (simp add: printLiveDirectory_def emit_def)

lemma walk_count:
  "fst (walkDir (walkFn tbl c exts) path t st) = None
   \<and> scannedCount (snd (snd (walkDir (walkFn tbl c exts) path t st)))
       = scannedCount (snd st) + int (walkedFiles t)"
  and walk_count_list:
  "fst (walkEntries (walkFn tbl c exts) path ts st) = None
   \<and> scannedCount (snd (snd (walkEntries (walkFn tbl c exts) path ts st)))
       = scannedCount (snd st) + int (walkedFilesIn ts)"
proof (induction t and ts arbitrary: path st and path st rule: walkedFiles_walkedFilesIn.induct)
  case (1 name i)
  show ?case
    by (simp only: walkDir_file walkFn_file_ret walkFn_file_count walkedFiles.simps) simp
next
  case (2 name entries rerr)
  obtain rs g where st: "st = (rs, g)" by (cases st)
  show ?case
  proof (cases rerr)
    case None
    then show ?thesis
      using 2 [OF None, of path "(rs, if showLive g then printLiveDirectory path g else g)"]
      by (simp add: st walkDir_readable del: walkDir.simps)
  next
    case (Some e)
    then show ?thesis
      by (simp add: st walkDir_unreadable del: walkDir.simps)
  qed
next
  case 3
  show ?case by simp
next
  case (4 e es)
  obtain r s1 where w: "walkDir (walkFn tbl c exts) (filepath_Join path (node_Name e)) e st = (r, s1)"
    by (cases "walkDir (walkFn tbl c exts) (filepath_Join path (node_Name e)) e st")
  have r: "r = None" and c1: "scannedCount (snd s1) = scannedCount (snd st) + int (walkedFiles e)"
    using "4.IH"(1) [of "filepath_Join path (node_Name e)" st] w by simp_all
  show ?case
    using "4.IH"(2) [of path s1] by (simp add: w r c1)
qed

lemma walkEntries_append:
  "walkEntries (walkFn tbl c exts) path (xs @ ys) st
     = walkEntries (walkFn tbl c exts) path ys (snd (walkEntries (walkFn tbl c exts) path xs st))"
proof (induction xs arbitrary: st)
  case Nil
  show ?case by simp
next
  case (Cons x xs)
  obtain r s1 where w: "walkDir (walkFn tbl c exts) (filepath_Join path (node_Name x)) x st = (r, s1)"
    by (cases "walkDir (walkFn tbl c exts) (filepath_Join path (node_Name x)) x st")
  have r: "r = None"
    using walk_count [of tbl c exts "filepath_Join path (node_Name x)" x st] w by simp
  show ?case
    using Cons.IH [of s1] by (simp add: w r)
qed

lemma WalkDir_root_error:
  "WalkDir (walkFn tbl c exts) root (Inl e) st = (None, st)"
  by (simp add: WalkDir_def walkFn_err)

lemma WalkDir_root_node:
  "WalkDir (walkFn tbl c exts) root (Inr t) st
     = (None, snd (walkDir (walkFn tbl c exts) root t st))"
proof -
  obtain r s1 where w: "walkDir (walkFn tbl c exts) root t st = (r, s1)"
    by (cases "walkDir (walkFn tbl c exts) root t st")
  have "r = None"
    using walk_count [of tbl c exts root t st] w by simp
  then show ?thesis
    by (simp add: WalkDir_def w)
qed

lemma scanRecursive_error: "snd (fst (scanRecursive tbl c exts w g)) = None"
  by (cases "lstat_root w")
    (simp_all add: scanRecursive_def WalkDir_root_error WalkDir_root_node case_prod_beta)

lemma scanRecursive_count:
  "lstat_root w = Inr t \<Longrightarrow>
     scannedCount (snd (scanRecursive tbl c exts w g)) = scannedCount g + int (walkedFiles t)"
  using walk_count [of tbl c exts "Dir c" t "([], g)"]
  by (simp add: scanRecursive_def WalkDir_root_node case_prod_beta)

lemma scanRecursive_root_error:
  "lstat_root w = Inl e \<Longrightarrow> scanRecursive tbl c exts w g = (([], None), g)"
  by (simp add: scanRecursive_def WalkDir_root_error)

lemma scanFlatEntry_count:
  "scannedCount (snd (scanFlatEntry tbl c exts entry st)) = scannedCount (snd st) + 1"
  by (cases st; cases entry)
    (auto simp: scanFlatEntry_def Let_def printLiveScanning_def printLiveMatch_def emit_def
       split: sum.splits)

lemma scanFlat_fold_count:
  "scannedCount (snd (foldl (\<lambda>st entry. scanFlatEntry tbl c exts entry st) st entries))
     = scannedCount (snd st) + int (length entries)"
  by (induction entries arbitrary: st) (simp_all add: scanFlatEntry_count)

lemma scanFlat_count:
  "readdir_root w = (entries, None) \<Longrightarrow>
     scannedCount (snd (scanFlat tbl c exts w g)) = scannedCount g + int (length entries)"
  using scanFlat_fold_count [of tbl c exts "([], g)" entries]
  by (simp add: scanFlat_def case_prod_beta)

lemma fileEntries_le: "fileEntries entries \<le> length entries"
  by (simp add: fileEntries_def)


lemma walkFn_file_results:
  "fst (snd (walkFn tbl c exts path (Some (FileNode name i)) None (rs, g)))
     = (case i of Inl ierr \<Rightarrow> rs
        | Inr info \<Rightarrow> if isMatch tbl info c exts
                       then rs @ [buildResult (filepath_Dir path) info] else rs)"
  by (cases i) (simp_all add: walkFn_def Let_def)

lemma walk_results_indep:
  "fst (snd (walkDir (walkFn tbl c exts) path t (rs, g)))
     = fst (snd (walkDir (walkFn tbl c exts) path t (rs, g')))"
  and walk_results_indep_list:
  "fst (snd (walkEntries (walkFn tbl c exts) path ts (rs, g)))
     = fst (snd (walkEntries (walkFn tbl c exts) path ts (rs, g')))"
proof (induction t and ts arbitrary: path rs g g' and path rs g g'
    rule: walkedFiles_walkedFilesIn.induct)
  case (1 name i)
  show ?case
    by (simp only: walkDir_file walkFn_file_results)
next
  case (2 name entries rerr)
  show ?case
  proof (cases rerr)
    case None
    then show ?thesis
      using 2 [OF None] by (simp add: walkDir_readable del: walkDir.simps)
  next
    case (Some e)
    then show ?thesis
      by (simp add: walkDir_unreadable del: walkDir.simps)
  qed
next
  case 3
  show ?case by simp
next
  case (4 e es)
  let ?p = "filepath_Join path (node_Name e)"
  obtain r rs1 g1 where w: "walkDir (walkFn tbl c exts) ?p e (rs, g) = (r, rs1, g1)"
    by (cases "walkDir (walkFn tbl c exts) ?p e (rs, g)") auto
  obtain r' rs1' g1' where w': "walkDir (walkFn tbl c exts) ?p e (rs, g') = (r', rs1', g1')"
    by (cases "walkDir (walkFn tbl c exts) ?p e (rs, g')") auto
  have r: "r = None" and r': "r' = None"
    using walk_count [of tbl c exts ?p e "(rs, g)"] walk_count [of tbl c exts ?p e "(rs, g')"] w w'
    by simp_all
  have eq: "rs1 = rs1'"
    using "4.IH"(1) [of ?p rs g g'] w w' by simp
  show ?case
    using "4.IH"(2) [of path rs1 g1 g1'] by (simp add: w w' r r' eq)
qed

lemma scanRecursive_results_indep:
  "fst (scanRecursive tbl c exts w g) = fst (scanRecursive tbl c exts w g')"
proof (cases "lstat_root w")
  case (Inl e)
  then show ?thesis by (simp add: scanRecursive_root_error)
next
  case (Inr t)
  then show ?thesis
    using walk_results_indep [of tbl c exts "Dir c" t "[]" g g']
    by (simp add: scanRecursive_def WalkDir_root_node case_prod_beta)
qed

lemmas match_eval = isMatch_def map_len_def map_get_def sample_Config_def default_Config_def
  file_a_go_def file_b_py_def filepath_Ext_def ToLower_def isASCII_def lowerByte_def isUpper_def
  Split_def HasPrefix_def

lemma sample_match_a: "isMatch latin1_lower file_a_go sample_Config [(''.go'', True)]"
  by (simp add: match_eval)

lemma sample_match_b: "\<not> isMatch latin1_lower file_b_py sample_Config [(''.go'', True)]"
  by (simp add: match_eval)

lemma sample_match_c:
  "isMatch latin1_lower (file_a_go\<lparr>info_Name := ''c.go''\<rparr>) sample_Config [(''.go'', True)]"
  by (simp add: match_eval)

lemmas path_eval = filepath_Join_def filepath_Clean_def cleanElem_def filepath_Dir_def
  Split_def HasPrefix_def

lemma sample_joins:
  "filepath_Join ''proj'' ''a.go'' = ''proj/a.go''"
  "filepath_Join ''proj'' ''b.py'' = ''proj/b.py''"
  "filepath_Join ''proj'' ''locked'' = ''proj/locked''"
  "filepath_Join ''proj'' ''gone.go'' = ''proj/gone.go''"
  "filepath_Join ''proj'' ''sub'' = ''proj/sub''"
  "filepath_Join ''proj/sub'' ''c.go'' = ''proj/sub/c.go''"
  "filepath_Dir ''proj/a.go'' = ''proj''"
  "filepath_Dir ''proj/sub/c.go'' = ''proj/sub''"
  by (simp_all add: path_eval)

lemma sample_names: "info_Name file_a_go = ''a.go''" "Dir sample_Config = ''proj''"
  by (simp_all add: file_a_go_def sample_Config_def)

lemma sample_deep_paths:
  "map Path (fst (fst (scanRecursive latin1_lower sample_Config [(''.go'', True)] sample_World
                         zero_Globals)))
     = [''proj/a.go'', ''proj/sub/c.go'']"
  by (simp add: scanRecursive_def WalkDir_def sample_World_def sample_tree_def walkFn_def
      zero_Globals_def sample_match_a sample_match_b sample_match_c sample_joins sample_names
      buildResult_def)

lemma sample_flat_paths:
  "map Path (fst (fst (scanFlat latin1_lower sample_Config [(''.go'', True)] sample_World
                         zero_Globals)))
     = [''proj/a.go'']"
  by (simp add: scanFlat_def scanFlatEntry_def sample_World_def sample_tree_def
      zero_Globals_def sample_match_a sample_match_b sample_joins sample_names buildResult_def)

lemma Split_16_1_2024: "Split ''16/1/2024'' ''/'' = [''16'', ''1'', ''2024'']"
  by (simp add: Split_def HasPrefix_def)

lemma Atoi_16: "Atoi ''16'' = (16, None)"
  by (simp add: Atoi_def isDigit_def digitVal_def)

lemma sample_nomatch_files:
  "\<not> isMatch latin1_lower file_a_go (sample_Config\<lparr>Recursive := True, OutputFormat := ''md'',
         AllDate := ''16/1/2024''\<rparr>) [(''.go'', True)]"
  "\<not> isMatch latin1_lower file_b_py (sample_Config\<lparr>Recursive := True, OutputFormat := ''md'',
         AllDate := ''16/1/2024''\<rparr>) [(''.go'', True)]"
  "\<not> isMatch latin1_lower (file_a_go\<lparr>info_Name := ''c.go''\<rparr>)
        (sample_Config\<lparr>Recursive := True, OutputFormat := ''md'', AllDate := ''16/1/2024''\<rparr>)
        [(''.go'', True)]"
  by (simp_all add: isMatch_three_parts Split_16_1_2024 Atoi_16 file_a_go_def file_b_py_def)

lemma TrimSpace_go: "TrimSpace ''go'' = ''go''"
  by (simp add: TrimSpace_def trimLeft.simps trimRight.simps DecodeLastRune_def IsSpace_def)

lemma normalizeExt_go: "normalizeExt latin1_lower ''go'' = ''.go''"
  by (simp add: normalizeExt_def TrimSpace_go HasPrefix_def ToLower_def isASCII_def
      lowerByte_def isUpper_def)

lemma sample_exts: "buildAllowedExts latin1_lower ''go'' = [(''.go'', True)]"
  by (simp add: buildAllowedExts_def Split_def HasPrefix_def normalizeExt_go)

lemma sample_nomatch_scan:
  "fst (scanRecursive latin1_lower
          (sample_Config\<lparr>Recursive := True, OutputFormat := ''md'', AllDate := ''16/1/2024''\<rparr>)
          [(''.go'', True)] sample_World zero_Globals) = ([], None)"
proof -
  have p: "Dir (sample_Config\<lparr>Recursive := True, OutputFormat := ''md'',
                 AllDate := ''16/1/2024''\<rparr>) = ''proj''"
    by (simp add: sample_Config_def)
  show ?thesis
    by (simp add: scanRecursive_def WalkDir_def sample_World_def sample_tree_def walkFn_def
        zero_Globals_def sample_nomatch_files sample_joins sample_names p)
qed

text \<open>
  C8, as the code has it. Every entry that is no directory raises the scanned count by
  one when the traversal reaches it, whether or not its \<open>Info()\<close> can then be read:
  the counter goes up before \<open>Info()\<close> is called, in \<open>scanFlat\<close> and in the
  callback of \<open>scanRecursive\<close> alike. So a shallow scan counts at least the entries
  that are no directories. A deep scan counts exactly the entries that are no directories
  and that the walk reaches: no directory is counted, nothing below a directory that
  could not be read is, and nothing at all is when the root cannot be examined.
\<close>

theorem scanned_count_files:
  "scannedCount (snd (scanFlatEntry tbl c exts (FileNode name i) (rs, g))) = scannedCount g + 1
   \<and> (readdir_root w = (entries, None) \<longrightarrow>
        scannedCount g + int (fileEntries entries)
          \<le> scannedCount (snd (scanFlat tbl c exts w g)))
   \<and> (lstat_root w = Inr t \<longrightarrow>
        scannedCount (snd (scanRecursive tbl c exts w g)) = scannedCount g + int (walkedFiles t))
   \<and> (lstat_root w = Inl e \<longrightarrow>
        scannedCount (snd (scanRecursive tbl c exts w g)) = scannedCount g)"
proof (intro conjI impI)
  show "scannedCount (snd (scanFlatEntry tbl c exts (FileNode name i) (rs, g))) = scannedCount g + 1"
    by (simp add: scanFlatEntry_count)
next
  assume "readdir_root w = (entries, None)"
  then show "scannedCount g + int (fileEntries entries)
          \<le> scannedCount (snd (scanFlat tbl c exts w g))"
    using fileEntries_le [of entries] by (simp add: scanFlat_count)
next
  assume "lstat_root w = Inr t"
  then show "scannedCount (snd (scanRecursive tbl c exts w g)) = scannedCount g + int (walkedFiles t)"
    by (rule scanRecursive_count)
next
  assume "lstat_root w = Inl e"
  then show "scannedCount (snd (scanRecursive tbl c exts w g)) = scannedCount g"
    by (simp add: scanRecursive_root_error)
qed


theorem scanned_count_files_witness:
  "readdir_root sample_World = (fst (readdir_root sample_World), None)
   \<and> fileEntries (fst (readdir_root sample_World)) = 3
   \<and> 3 \<le> scannedCount (snd (scanFlat latin1_lower sample_Config [(''.go'', True)] sample_World
                                 zero_Globals))
   \<and> lstat_root sample_World = Inr sample_tree
   \<and> walkedFiles sample_tree = 4
   \<and> scannedCount (snd (scanRecursive latin1_lower sample_Config [(''.go'', True)] sample_World
                            zero_Globals)) = 4
   \<and> scannedCount (snd (scanFlatEntry latin1_lower sample_Config [(''.go'', True)]
                            (FileNode ''gone.go'' (Inl (PathError ''lstat'' ''proj/gone.go'' ENOENT)))
                            ([], zero_Globals))) = 1"
proof -
  note t = scanned_count_files [of latin1_lower sample_Config "[(''.go'', True)]" "''gone.go''"
      "Inl (PathError ''lstat'' ''proj/gone.go'' ENOENT)" "[]" zero_Globals sample_World
      "fst (readdir_root sample_World)" sample_tree "PathError ''lstat'' ''proj'' EIO"]
  have r: "readdir_root sample_World = (fst (readdir_root sample_World), None)"
    by (simp add: sample_World_def sample_tree_def)
  have l: "lstat_root sample_World = Inr sample_tree"
    by (simp add: sample_World_def)
  have f: "fileEntries (fst (readdir_root sample_World)) = 3"
    by (simp add: sample_World_def sample_tree_def fileEntries_def)
  have w: "walkedFiles sample_tree = 4"
    by (simp add: sample_tree_def)
  have z: "scannedCount zero_Globals = 0"
    by (simp add: zero_Globals_def)
  show ?thesis
    using t r l f w z by simp
qed

text \<open>
  C8 as the specification states it fails twice. A shallow scan of a directory whose only
  entry is a subdirectory counts that subdirectory. A deep scan of a directory whose only
  entry is a file whose \<open>Info()\<close> fails reports nothing and yet counts the entry.
\<close>

theorem directories_and_unreadable_entries_counted:
  "node_IsDir (DirNode ''sub'' [] None)
   \<and> scannedCount (snd (scanFlat latin1_lower sample_Config [(''.go'', True)]
                            (sample_World\<lparr>readdir_root := ([DirNode ''sub'' [] None], None)\<rparr>)
                            zero_Globals)) = 1
   \<and> fst (scanRecursive latin1_lower sample_Config [(''.go'', True)]
             (sample_World\<lparr>lstat_root :=
                Inr (DirNode ''proj''
                       [FileNode ''gone.go'' (Inl (PathError ''lstat'' ''proj/gone.go'' ENOENT))]
                       None)\<rparr>)
             zero_Globals) = ([], None)
   \<and> scannedCount (snd (scanRecursive latin1_lower sample_Config [(''.go'', True)]
             (sample_World\<lparr>lstat_root :=
                Inr (DirNode ''proj''
                       [FileNode ''gone.go'' (Inl (PathError ''lstat'' ''proj/gone.go'' ENOENT))]
                       None)\<rparr>)
             zero_Globals)) = 1"
  by (simp add: scanFlat_def scanFlatEntry_def scanRecursive_def WalkDir_def walkFn_def
      zero_Globals_def)

text \<open>
  C9. In a deep scan, a directory that \<open>os.ReadDir\<close> fails on ends with no error:
  nothing is added to the results, no counter moves, and none of its entries is visited;
  it is walked exactly as an empty directory is. The entries that follow it in its parent
  are walked next, from the state the scan was in before it. \<open>scanRecursive\<close> never
  returns an error.
\<close>

theorem unreadable_subdirectory_pruned:
  "walkDir (walkFn tbl c exts) path (DirNode name es (Some e)) (rs, g)
     = (None, rs, if showLive g then printLiveDirectory path g else g)
   \<and> walkDir (walkFn tbl c exts) path (DirNode name es (Some e)) st
       = walkDir (walkFn tbl c exts) path (DirNode name [] None) st
   \<and> walkEntries (walkFn tbl c exts) path (pre @ DirNode name es (Some e) # post) st
       = walkEntries (walkFn tbl c exts) path post
           (snd (walkDir (walkFn tbl c exts) (filepath_Join path name) (DirNode name es (Some e))
                   (snd (walkEntries (walkFn tbl c exts) path pre st))))
   \<and> snd (fst (scanRecursive tbl c exts w g0)) = None"
proof (intro conjI)
  show "walkDir (walkFn tbl c exts) path (DirNode name es (Some e)) (rs, g)
     = (None, rs, if showLive g then printLiveDirectory path g else g)"
    by (rule walkDir_unreadable)
next
  show "walkDir (walkFn tbl c exts) path (DirNode name es (Some e)) st
       = walkDir (walkFn tbl c exts) path (DirNode name [] None) st"
    by (cases st) (simp add: walkDir_unreadable walkDir_readable del: walkDir.simps)
next
  let ?F = "walkFn tbl c exts"
  let ?bad = "DirNode name es (Some e)"
  let ?s1 = "snd (walkEntries ?F path pre st)"
  obtain r s2 where w: "walkDir ?F (filepath_Join path (node_Name ?bad)) ?bad ?s1 = (r, s2)"
    by (cases "walkDir ?F (filepath_Join path (node_Name ?bad)) ?bad ?s1")
  have r: "r = None"
    using walk_count [of tbl c exts "filepath_Join path (node_Name ?bad)" ?bad ?s1] w by simp
  have "walkEntries ?F path (pre @ ?bad # post) st = walkEntries ?F path (?bad # post) ?s1"
    by (rule walkEntries_append)
  also have "\<dots> = walkEntries ?F path post s2"
    using w r by (simp del: walkDir.simps)
  finally show "walkEntries ?F path (pre @ ?bad # post) st
       = walkEntries ?F path post (snd (walkDir ?F (filepath_Join path name) ?bad ?s1))"
    using w by simp
next
  show "snd (fst (scanRecursive tbl c exts w g0)) = None"
    by (rule scanRecursive_error)
qed


theorem unreadable_subdirectory_pruned_witness:
  "walkDir (walkFn latin1_lower sample_Config [(''.go'', True)]) ''proj/locked''
     (DirNode ''locked'' [FileNode ''z.go'' (Inr (file_a_go\<lparr>info_Name := ''z.go''\<rparr>))]
        (Some (PathError ''open'' ''proj/locked'' EACCES)))
     ([], zero_Globals)
     = (None, [], zero_Globals)
   \<and> snd (fst (scanRecursive latin1_lower sample_Config [(''.go'', True)] sample_World
                  zero_Globals)) = None
   \<and> map Path (fst (fst (scanRecursive latin1_lower sample_Config [(''.go'', True)] sample_World
                            zero_Globals)))
       = [''proj/a.go'', ''proj/sub/c.go'']"
proof -
  note t = unreadable_subdirectory_pruned [of latin1_lower sample_Config "[(''.go'', True)]"
      "''proj/locked''" "''locked''" "[FileNode ''z.go'' (Inr (file_a_go\<lparr>info_Name := ''z.go''\<rparr>))]"
      "PathError ''open'' ''proj/locked'' EACCES" "[]" zero_Globals "([], zero_Globals)" "[]" "[]"
      sample_World zero_Globals]
  have s: "\<not> showLive zero_Globals"
    by (simp add: zero_Globals_def)
  show ?thesis
    using t s sample_deep_paths by simp
qed

text \<open>
  C10. When the directory exists and the scan returns no error and no result, \<open>main\<close>
  ends with status 0 and creates no file, whatever the output format is. After what the
  scan printed it prints the line clearing (in live mode), the summary and the warning,
  and nothing else: no formatter runs.
\<close>

theorem no_match_no_output:
  assumes dir: "\<not> IsNotExist (stat_err w)"
    and scan: "(if Recursive c
                then scanRecursive tbl c (buildAllowedExts tbl (Extensions c)) w
                       (announce c (initial_Globals c))
                else scanFlat tbl c (buildAllowedExts tbl (Extensions c)) w
                       (announce c (initial_Globals c)))
               = (([], None), g)"
  shows "exit_status (main tbl c w) = 0
    \<and> created (main tbl c w) = []
    \<and> stdout (globals (main tbl c w))
        = stdout g @ (if showLive g then [PrintClearLine] else [])
            @ [PrintSummary (scannedCount g) 0,
               PrintWarning ''No files found matching your criteria.'']"
  using dir scan by (simp add: main_def Let_def emit_def)

theorem no_match_no_output_witness:
  "\<not> IsNotExist (stat_err sample_World)
   \<and> fst (scanRecursive latin1_lower
            (sample_Config\<lparr>Recursive := True, OutputFormat := ''md'', AllDate := ''16/1/2024''\<rparr>)
            (buildAllowedExts latin1_lower ''go'') sample_World
            (announce (sample_Config\<lparr>Recursive := True, OutputFormat := ''md'',
                         AllDate := ''16/1/2024''\<rparr>)
               (initial_Globals (sample_Config\<lparr>Recursive := True, OutputFormat := ''md'',
                                   AllDate := ''16/1/2024''\<rparr>))))
       = ([], None)
   \<and> exit_status (main latin1_lower
         (sample_Config\<lparr>Recursive := True, OutputFormat := ''md'', AllDate := ''16/1/2024''\<rparr>)
         sample_World) = 0
   \<and> created (main latin1_lower
         (sample_Config\<lparr>Recursive := True, OutputFormat := ''md'', AllDate := ''16/1/2024''\<rparr>)
         sample_World) = []
   \<and> last (stdout (globals (main latin1_lower
         (sample_Config\<lparr>Recursive := True, OutputFormat := ''md'', AllDate := ''16/1/2024''\<rparr>)
         sample_World)))
       = PrintWarning ''No files found matching your criteria.''"
proof -
  let ?c = "sample_Config\<lparr>Recursive := True, OutputFormat := ''md'', AllDate := ''16/1/2024''\<rparr>"
  let ?g = "announce ?c (initial_Globals ?c)"
  let ?scan = "scanRecursive latin1_lower ?c (buildAllowedExts latin1_lower ''go'') sample_World ?g"
  have d: "\<not> IsNotExist (stat_err sample_World)"
    by (simp add: sample_World_def)
  have e: "Extensions ?c = ''go''" and r: "Recursive ?c"
    by (simp_all add: sample_Config_def default_Config_def)
  have f: "fst ?scan = ([], None)"
    using scanRecursive_results_indep [of latin1_lower ?c "[(''.go'', True)]" sample_World ?g
        zero_Globals]
    by (simp only: sample_exts sample_nomatch_scan)
  have s: "(if Recursive ?c
            then scanRecursive latin1_lower ?c (buildAllowedExts latin1_lower (Extensions ?c))
                   sample_World (announce ?c (initial_Globals ?c))
            else scanFlat latin1_lower ?c (buildAllowedExts latin1_lower (Extensions ?c))
                   sample_World (announce ?c (initial_Globals ?c)))
           = (([], None), snd ?scan)"
    unfolding e if_P [OF r] using f by (simp only: prod_eq_iff fst_conv snd_conv)
  note t = no_match_no_output [OF d s]
  show ?thesis
    using d f t by simp
qed

section \<open>Sizes and file names\<close>

lemma hundredths_nearest:
  assumes "0 < unit"
  shows "2 * \<bar>int (100 * f) - int (hundredths f unit * unit)\<bar> \<le> int unit"
proof -
  let ?n = "100 * f"
  let ?q = "?n div unit"
  let ?r = "?n mod unit"
  have n: "?n = ?q * unit + ?r" by simp
  have r: "?r < unit" using assms by simp
  show ?thesis
  proof (cases "2 * ?r > unit \<or> (2 * ?r = unit \<and> odd ?q)")
    case True
    then have h: "hundredths f unit = ?q + 1" by (simp add: hundredths_def Let_def)
    have "int (hundredths f unit * unit) - int ?n = int unit - int ?r"
      unfolding h using n by (simp add: algebra_simps of_nat_mod of_nat_div) 
    then show ?thesis using True r by auto
  next
    case False
    then have h: "hundredths f unit = ?q" by (simp add: hundredths_def Let_def)
    have "int ?n - int (hundredths f unit * unit) = int ?r"
      unfolding h using n by (simp add: algebra_simps of_nat_mod of_nat_div)
    then show ?thesis using False r by auto
  qed
qed

lemma float64_exact: "n < 2 ^ 53 \<Longrightarrow> float64_of_nat n = n"
  by (simp add: float64_of_nat_def)

lemma formatSize_B: "bytes < 1024 \<Longrightarrow> formatSize bytes = show_int bytes @ '' B''"
  by (simp add: formatSize_def kb_def mb_def gb_def)

lemma formatSize_KB:
  "1024 \<le> bytes \<Longrightarrow> bytes < 1024 * 1024 \<Longrightarrow>
     formatSize bytes = show_hundredths (hundredths (nat bytes) 1024) @ '' KB''"
  by (simp add: formatSize_def kb_def mb_def gb_def Sprintf_2f_def float64_exact)

lemma formatSize_MB:
  "1024 * 1024 \<le> bytes \<Longrightarrow> bytes < 1024 * 1024 * 1024 \<Longrightarrow>
     formatSize bytes = show_hundredths (hundredths (nat bytes) (1024 * 1024)) @ '' MB''"
  by (simp add: formatSize_def kb_def mb_def gb_def Sprintf_2f_def float64_exact)

lemma formatSize_GB:
  "1024 * 1024 * 1024 \<le> bytes \<Longrightarrow>
     formatSize bytes =
       show_hundredths (hundredths (float64_of_nat (nat bytes)) (1024 * 1024 * 1024)) @ '' GB''"
  by (simp add: formatSize_def kb_def mb_def gb_def Sprintf_2f_def)

lemmas fmt_eval = formatSize_def kb_def mb_def gb_def Sprintf_2f_def float64_of_nat_def
  hundredths_def show_hundredths_def show_nat.simps show_int_def char_of_def bit_Suc_0_iff Let_def

lemma formatSize_0: "formatSize 0 = ''0 B''"
  by (simp add: fmt_eval)

lemma formatSize_1536: "formatSize 1536 = ''1.50 KB''"
  by (simp add: fmt_eval)

lemma formatSize_MiB: "formatSize 1048576 = ''1.00 MB''"
  by (simp add: fmt_eval)

lemma formatSize_GiB: "formatSize 1073741824 = ''1.00 GB''"
  by (simp add: fmt_eval)

text \<open>
  C6. For a byte count that is not negative, \<open>formatSize\<close> prints the bare integer
  and \<open>B\<close> below 1024; from 1024 on it prints a number with two decimals and the unit
  \<open>KB\<close> below \<open>1024\<^sup>2\<close>, \<open>MB\<close> below \<open>1024\<^sup>3\<close>, \<open>GB\<close> from
  there on. The number of hundredths printed is a nearest one to the quotient of the
  converted count by the unit, and the conversion \<open>float64(bytes)\<close> is exact below
  \<open>2\<^sup>5\<^sup>3\<close>. The four sizes of the specification print as it says.
\<close>

theorem formatSize_units:
  assumes "0 \<le> bytes"
  shows "(bytes < 1024 \<longrightarrow> formatSize bytes = show_nat (nat bytes) @ '' B'')
    \<and> (1024 \<le> bytes \<and> bytes < 1024 * 1024 \<longrightarrow>
         (\<exists>h. formatSize bytes = show_hundredths h @ '' KB''
              \<and> 2 * \<bar>100 * bytes - int h * 1024\<bar> \<le> 1024))
    \<and> (1024 * 1024 \<le> bytes \<and> bytes < 1024 * 1024 * 1024 \<longrightarrow>
         (\<exists>h. formatSize bytes = show_hundredths h @ '' MB''
              \<and> 2 * \<bar>100 * bytes - int h * (1024 * 1024)\<bar> \<le> 1024 * 1024))
    \<and> (1024 * 1024 * 1024 \<le> bytes \<longrightarrow>
         (\<exists>h. formatSize bytes = show_hundredths h @ '' GB''
              \<and> 2 * \<bar>100 * int (float64_of_nat (nat bytes)) - int h * (1024 * 1024 * 1024)\<bar>
                   \<le> 1024 * 1024 * 1024))
    \<and> (bytes < 2 ^ 53 \<longrightarrow> int (float64_of_nat (nat bytes)) = bytes)
    \<and> formatSize 0 = ''0 B'' \<and> formatSize 1536 = ''1.50 KB''
    \<and> formatSize 1048576 = ''1.00 MB'' \<and> formatSize 1073741824 = ''1.00 GB''"
proof (intro conjI impI)
  assume "bytes < 1024"
  then show "formatSize bytes = show_nat (nat bytes) @ '' B''"
    using assms by (simp add: formatSize_B show_int_def)
next
  assume a: "1024 \<le> bytes \<and> bytes < 1024 * 1024"
  have "2 * \<bar>100 * bytes - int (hundredths (nat bytes) 1024) * 1024\<bar> \<le> 1024"
    using hundredths_nearest [of 1024 "nat bytes"] assms by simp
  with a show "\<exists>h. formatSize bytes = show_hundredths h @ '' KB''
              \<and> 2 * \<bar>100 * bytes - int h * 1024\<bar> \<le> 1024"
    by (intro exI [of _ "hundredths (nat bytes) 1024"]) (simp add: formatSize_KB)
next
  assume a: "1024 * 1024 \<le> bytes \<and> bytes < 1024 * 1024 * 1024"
  have "2 * \<bar>100 * bytes - int (hundredths (nat bytes) (1024 * 1024)) * (1024 * 1024)\<bar>
          \<le> 1024 * 1024"
    using hundredths_nearest [of "1024 * 1024" "nat bytes"] assms by simp
  with a show "\<exists>h. formatSize bytes = show_hundredths h @ '' MB''
              \<and> 2 * \<bar>100 * bytes - int h * (1024 * 1024)\<bar> \<le> 1024 * 1024"
    by (intro exI [of _ "hundredths (nat bytes) (1024 * 1024)"]) (simp add: formatSize_MB)
next
  assume a: "1024 * 1024 * 1024 \<le> bytes"
  have "2 * \<bar>100 * int (float64_of_nat (nat bytes))
            - int (hundredths (float64_of_nat (nat bytes)) (1024 * 1024 * 1024))
              * (1024 * 1024 * 1024)\<bar> \<le> 1024 * 1024 * 1024"
    using hundredths_nearest [of "1024 * 1024 * 1024" "float64_of_nat (nat bytes)"] by simp
  with a show "\<exists>h. formatSize bytes = show_hundredths h @ '' GB''
              \<and> 2 * \<bar>100 * int (float64_of_nat (nat bytes)) - int h * (1024 * 1024 * 1024)\<bar>
                   \<le> 1024 * 1024 * 1024"
    by (intro exI [of _ "hundredths (float64_of_nat (nat bytes)) (1024 * 1024 * 1024)"])
      (simp add: formatSize_GB)
next
  assume "bytes < 2 ^ 53"
  then show "int (float64_of_nat (nat bytes)) = bytes"
    using assms by (simp add: float64_exact)
next
  show "formatSize 0 = ''0 B''" by (rule formatSize_0)
next
  show "formatSize 1536 = ''1.50 KB''" by (rule formatSize_1536)
next
  show "formatSize 1048576 = ''1.00 MB''" by (rule formatSize_MiB)
next
  show "formatSize 1073741824 = ''1.00 GB''" by (rule formatSize_GiB)
qed

theorem formatSize_units_witness:
  "(0::int) \<le> 1152 \<and> formatSize 1152 = ''1.12 KB''
   \<and> (0::int) \<le> 1023 \<and> formatSize 1023 = show_nat 1023 @ '' B''
   \<and> formatSize 0 = ''0 B'' \<and> formatSize 1536 = ''1.50 KB''
   \<and> formatSize 1048576 = ''1.00 MB'' \<and> formatSize 1073741824 = ''1.00 GB''
   \<and> int (float64_of_nat (nat 1152)) = 1152"
proof -
  have h1: "(0::int) \<le> 1152" by simp
  have h2: "(0::int) \<le> 1023" by simp
  have a: "formatSize 1152 = ''1.12 KB''" by (simp add: fmt_eval)
  have b: "formatSize 1023 = show_nat 1023 @ '' B''"
    using formatSize_units [OF h2] by simp
  show ?thesis
    using formatSize_units [OF h1] a b by simp
qed








end
